theory Spec2Isabelle
  imports Main
begin

section \<open>Values, dictionaries and exceptions\<close>

text \<open>
  The engine moves JSON-shaped Python values around (\<open>dict[str, Any]\<close>). A Python
  dictionary is a partial map from keys to values; Python's \<open>None\<close> and JSON's
  \<open>null\<close> are the one value \<open>JNull\<close>. Floats are left out. A character of a
  \<open>string\<close> stands for one code point (below 256), so \<open>length\<close> is Python's
  \<open>len\<close>.
\<close>

datatype json =
    JNull
  | JBool bool
  | JInt int
  | JStr string
  | JList "json list"
  | JObj "string \<Rightarrow> json option"

type_synonym dict = "string \<rightharpoonup> json"

text \<open>Python truthiness (\<open>bool(v)\<close>, \<open>if v:\<close>).\<close>

fun truthy :: "json \<Rightarrow> bool" where
  "truthy JNull = False"
| "truthy (JBool b) = b"
| "truthy (JInt n) = (n \<noteq> 0)"
| "truthy (JStr s) = (s \<noteq> [])"
| "truthy (JList xs) = (xs \<noteq> [])"
| "truthy (JObj m) = (m \<noteq> Map.empty)"

text \<open>\<open>isinstance(v, str)\<close> and \<open>isinstance(v, dict)\<close>.\<close>

fun is_str :: "json \<Rightarrow> bool" where
  "is_str (JStr s) = True"
| "is_str v = False"


text \<open>
  Every \<open>raise\<close> of the source is a value of \<open>error\<close>; a function that may raise
  returns \<open>error + 'a\<close> with \<open>Inl\<close> the exception. \<open>ValidationError\<close> is
  jsonschema's, \<open>PydanticValidationError\<close> pydantic's, \<open>ProviderError\<close> any other
  exception of the AI provider.
\<close>

datatype error =
    ValueError string
  | NameError string
  | KeyError string
  | TypeError string
  | TimeoutError string
  | NotImplementedError string
  | ValidationError string
  | PydanticValidationError string
  | ProviderError string
  | IntegrityError string
  | NoResultFound
  | MultipleResultsFound

text \<open>\<open>str(e)\<close>: the message; for a \<open>KeyError\<close> the quoted key.\<close>

definition quoted :: "string \<Rightarrow> string" where
  "quoted s = CHR 0x27 # s @ [CHR 0x27]"

fun str_of_error :: "error \<Rightarrow> string" where
  "str_of_error (ValueError m) = m"
| "str_of_error (NameError m) = m"
| "str_of_error (KeyError k) = quoted k"
| "str_of_error (TypeError m) = m"
| "str_of_error (TimeoutError m) = m"
| "str_of_error (NotImplementedError m) = m"
| "str_of_error (ValidationError m) = m"
| "str_of_error (PydanticValidationError m) = m"
| "str_of_error (ProviderError m) = m"
| "str_of_error (IntegrityError m) = m"
| "str_of_error NoResultFound = ''No row was found when one was required''"
| "str_of_error MultipleResultsFound = ''Multiple rows were found when one or none was required''"

section \<open>Form executor (app/executors/form.py)\<close>

text \<open>\<open>StepConfigField\<close> of app/models/schemas.py.\<close>

record step_config_field =
  key :: string
  ftype :: string
  required :: bool
  pattern :: "string option"

text \<open>
  \<open>FormExecutor.validate_fields\<close>: the loop over \<open>self.config.fields\<close>, with the
  dictionary \<open>validated\<close> as accumulator. Each field is checked in the order of the
  source: required and missing, optional and missing (skipped), unsupported type, value not a
  string.
\<close>

fun validate_fields_loop ::
  "step_config_field list \<Rightarrow> dict \<Rightarrow> dict \<Rightarrow> error + dict" where
  "validate_fields_loop [] inputs validated = Inr validated"
| "validate_fields_loop (f # fs) inputs validated =
     (if required f \<and> inputs (key f) = None then
        Inl (ValueError (''Required field '' @ quoted (key f) @ '' is missing''))
      else if inputs (key f) = None then validate_fields_loop fs inputs validated
      else if ftype f \<notin> {''text'', ''textarea''} then
        Inl (ValueError (''Field type '' @ quoted (ftype f) @ '' not supported. ''
                         @ ''Only '' @ quoted ''text'' @ '' and '' @ quoted ''textarea''
                         @ '' are allowed.''))
      else (case inputs (key f) of
              Some (JStr s) \<Rightarrow> validate_fields_loop fs inputs (validated(key f \<mapsto> JStr s))
            | _ \<Rightarrow> Inl (ValueError (''Field '' @ quoted (key f) @ '' must be a string''))))"

definition validate_fields :: "step_config_field list \<Rightarrow> dict \<Rightarrow> error + dict" where
  "validate_fields flds inputs = validate_fields_loop flds inputs Map.empty"

text \<open>
  What makes one field descriptor reject an input map: it is required and absent, or it is
  present with a declared type outside text/textarea, or it is present with a value that is
  not a string.
\<close>

definition field_invalid :: "step_config_field \<Rightarrow> dict \<Rightarrow> bool" where
  "field_invalid f inputs =
     ((required f \<and> inputs (key f) = None)
      \<or> (inputs (key f) \<noteq> None \<and> ftype f \<notin> {''text'', ''textarea''})
      \<or> (case inputs (key f) of None \<Rightarrow> False | Some v \<Rightarrow> \<not> is_str v))"

text \<open>\<open>model_dump()\<close> of one field descriptor.\<close>

definition field_dump :: "step_config_field \<Rightarrow> json" where
  "field_dump f = JObj [''key'' \<mapsto> JStr (key f), ''type'' \<mapsto> JStr (ftype f),
     ''required'' \<mapsto> JBool (required f),
     ''pattern'' \<mapsto> (case pattern f of None \<Rightarrow> JNull | Some p \<Rightarrow> JStr p)]"

section \<open>Conditional executor: expression validation (app/executors/conditional.py)\<close>

definition MAX_EXPRESSION_LENGTH :: nat where
  "MAX_EXPRESSION_LENGTH = 256"

text \<open>
  \<open>str.strip()\<close> removes leading and trailing whitespace: for code points below 256 these
  are tab to carriage return (9-13), the separators 28-31, space, NEL (133) and the
  no-break space (160).
\<close>

definition isspace :: "char \<Rightarrow> bool" where
  "isspace c = (let n = (of_char c :: nat)
                in (9 \<le> n \<and> n \<le> 13) \<or> (28 \<le> n \<and> n \<le> 32) \<or> n = 133 \<or> n = 160)"

definition strip :: "string \<Rightarrow> string" where
  "strip s = rev (dropWhile isspace (rev (dropWhile isspace s)))"

text \<open>\<open>sub in s\<close> on strings: \<open>sub\<close> occurs at some position of \<open>s\<close>.\<close>

fun contains :: "string \<Rightarrow> string \<Rightarrow> bool" where
  "contains sub [] = (sub = [])"
| "contains sub (c # cs) = (take (length sub) (c # cs) = sub \<or> contains sub cs)"

text \<open>
  \<open>re.search(r"[a-zA-Z_]\.", expression)\<close>: somewhere a letter or an underscore is
  immediately followed by a dot.
\<close>

definition is_letter_or_underscore :: "char \<Rightarrow> bool" where
  "is_letter_or_underscore c = (let n = (of_char c :: nat)
      in (97 \<le> n \<and> n \<le> 122) \<or> (65 \<le> n \<and> n \<le> 90) \<or> n = 95)"

fun attribute_search :: "string \<Rightarrow> bool" where
  "attribute_search (a # b # cs) =
     ((is_letter_or_underscore a \<and> b = CHR ''.'') \<or> attribute_search (b # cs))"
| "attribute_search cs = False"

text \<open>
  \<open>ConditionalExecutor._validate_expression\<close>: the empty check, the length check, and the
  attribute-access check, which runs the regular expression only when the text contains
  \<open>__\<close> or a dot. All three raise \<open>ValueError\<close>.
\<close>

definition validate_expression :: "string \<Rightarrow> error + unit" where
  "validate_expression expression =
     (if expression = [] \<or> strip expression = [] then
        Inl (ValueError ''Expression cannot be empty'')
      else if length expression > MAX_EXPRESSION_LENGTH then
        Inl (ValueError ''Expression exceeds maximum length of 256 characters'')
      else if (contains ''__'' expression \<or> contains ''.'' expression)
              \<and> attribute_search expression then
        Inl (ValueError ''Attribute access not allowed in expressions'')
      else Inr ())"

section \<open>Execution context and external collaborators\<close>

text \<open>
  The run's context (\<open>Run.context\<close>): a dictionary of layers (\<open>static\<close>,
  \<open>profile\<close>, \<open>runtime\<close>), each a dictionary.
\<close>

type_synonym "context" = "string \<rightharpoonup> dict"

text \<open>
  What \<open>interpreter(expression)\<close> of asteval does: it returns a value and leaves
  \<open>interpreter.error\<close> empty, or it records errors (the message of the first is kept),
  or it raises \<open>SyntaxError\<close>/\<open>TypeError\<close>.
\<close>

datatype interp_result =
    Evaluated json
  | ErrorList string
  | RaisedSyntaxOrTypeError string

text \<open>
  The collaborators outside the repository, as parameters over a world state \<open>'w\<close>:
  the AI provider (\<open>provider.generate\<close>, which returns an object or raises),
  \<open>jsonschema.validate\<close> (\<open>None\<close> when the instance conforms, otherwise the
  exception it raises), the construction of a provider by
  \<open>AIGenerateExecutor.__init__\<close>, the asteval interpreter loaded with a namespace,
  \<open>uuid.uuid4\<close> and \<open>secrets.token_urlsafe\<close>.
\<close>

record 'w ext =
  generate :: "'w \<Rightarrow> string \<Rightarrow> dict \<Rightarrow> json \<Rightarrow> (error + json) \<times> 'w"
  validate :: "json \<Rightarrow> json \<Rightarrow> error option"
  new_provider :: "'w \<Rightarrow> 'w"
  interpreter :: "dict \<Rightarrow> string \<Rightarrow> interp_result"
  uuid4 :: "'w \<Rightarrow> string \<times> 'w"
  token_urlsafe :: "'w \<Rightarrow> string \<times> 'w"

section \<open>AI-generate executor (app/executors/ai_generate.py)\<close>

text \<open>\<open>AIGenerateStepConfig\<close> of app/models/schemas.py.\<close>

record ai_generate_step_config =
  template_id :: string
  variables :: "string list"
  json_schema :: json

definition MAX_RETRIES :: nat where
  "MAX_RETRIES = 2"

text \<open>
  The inner loop of \<open>_extract_variables\<close>: \<open>value = None\<close>, then the first section
  that is in the context and contains the name gives the value and ends the search.
\<close>

fun find_value :: "context \<Rightarrow> string list \<Rightarrow> string \<Rightarrow> json" where
  "find_value context [] var_name = JNull"
| "find_value context (section # sections) var_name =
     (case context section of
        None \<Rightarrow> find_value context sections var_name
      | Some layer \<Rightarrow>
          (case layer var_name of
             None \<Rightarrow> find_value context sections var_name
           | Some v \<Rightarrow> v))"

fun is_None :: "json \<Rightarrow> bool" where
  "is_None JNull = True"
| "is_None v = False"

definition not_found_message :: "string \<Rightarrow> string" where
  "not_found_message var_name =
     ''Variable '' @ quoted var_name @ '' not found in context. Checked: static, profile, runtime''"

text \<open>The outer loop of \<open>_extract_variables\<close>, with \<open>variables\<close> as accumulator.\<close>

fun extract_variables_loop :: "context \<Rightarrow> string list \<Rightarrow> dict \<Rightarrow> error + dict" where
  "extract_variables_loop context [] vars = Inr vars"
| "extract_variables_loop context (var_name # names) vars =
     (let val = find_value context [''static'', ''profile'', ''runtime''] var_name
      in if is_None val then Inl (ValueError (not_found_message var_name))
         else extract_variables_loop context names (vars(var_name \<mapsto> val)))"

definition extract_variables :: "ai_generate_step_config \<Rightarrow> context \<Rightarrow> error + dict" where
  "extract_variables config context = extract_variables_loop context (variables config) Map.empty"

text \<open>
  The messages kept in \<open>last_error\<close> by the two \<open>except\<close> clauses of
  \<open>execute\<close>: jsonschema's \<open>ValidationError\<close> first, any other exception second.
\<close>

fun last_error_of :: "error \<Rightarrow> string" where
  "last_error_of (ValidationError m) = ''Schema validation failed: '' @ m"
| "last_error_of e = str_of_error e"

text \<open>
  One pass through the \<open>try\<close> block of \<open>execute\<close>: generate, validate against the
  schema, store the output under \<open><step_id>_output\<close>. Every exception raised there is
  caught, so the pass gives the message for \<open>last_error\<close> or the output with the
  updated context.
\<close>

definition attempt ::
  "'w ext \<Rightarrow> ai_generate_step_config \<Rightarrow> dict \<Rightarrow> context \<Rightarrow> string \<Rightarrow> 'w
     \<Rightarrow> (string + json \<times> context) \<times> 'w" where
  "attempt ext config vars context sid w =
     (case generate ext w (template_id config) vars (json_schema config) of
        (Inl e, w') \<Rightarrow> (Inl (last_error_of e), w')
      | (Inr output, w') \<Rightarrow>
          (case validate ext output (json_schema config) of
             Some e \<Rightarrow> (Inl (last_error_of e), w')
           | None \<Rightarrow>
               (case context ''runtime'' of
                  None \<Rightarrow> (Inl (last_error_of (KeyError ''runtime'')), w')
                | Some runtime \<Rightarrow>
                    (Inr (output,
                          context(''runtime'' \<mapsto> runtime(sid @ ''_output'' \<mapsto> output))),
                     w'))))"

definition manual_fix :: "string \<Rightarrow> nat \<Rightarrow> dict" where
  "manual_fix err retry_count =
     [''pause'' \<mapsto> JBool True, ''waiting_for'' \<mapsto> JStr ''manual_fix'',
      ''error'' \<mapsto> JStr err, ''retry_count'' \<mapsto> JInt (int retry_count)]"

text \<open>
  The \<open>while retry_count <= self.MAX_RETRIES\<close> loop of \<open>execute\<close>, with the
  fallback after it.
\<close>

function ai_generate_loop ::
  "'w ext \<Rightarrow> ai_generate_step_config \<Rightarrow> dict \<Rightarrow> context \<Rightarrow> string \<Rightarrow> nat
     \<Rightarrow> string option \<Rightarrow> 'w \<Rightarrow> (dict \<times> context) \<times> 'w" where
  "ai_generate_loop ext config vars context sid retry_count last_error w =
     (if retry_count \<le> MAX_RETRIES then
        (case attempt ext config vars context sid w of
           (Inr (output, context'), w') \<Rightarrow>
             (([''pause'' \<mapsto> JBool False, ''output'' \<mapsto> output,
                ''retry_count'' \<mapsto> JInt (int retry_count)], context'), w')
         | (Inl err, w') \<Rightarrow>
             (if retry_count + 1 \<le> MAX_RETRIES then
                ai_generate_loop ext config vars context sid (retry_count + 1) (Some err) w'
              else ((manual_fix err (retry_count + 1), context), w')))
      else ((manual_fix (case last_error of None \<Rightarrow> ''Unknown error'' | Some err \<Rightarrow> err)
               retry_count, context), w))"
  by pat_completeness auto
termination
  by (relation "measure (\<lambda>(ext, config, vars, context, sid, retry_count, last_error, w).
        Suc MAX_RETRIES - retry_count)") auto

definition ai_generate_execute ::
  "'w ext \<Rightarrow> ai_generate_step_config \<Rightarrow> context \<Rightarrow> string \<Rightarrow> 'w
     \<Rightarrow> (error + dict \<times> context) \<times> 'w" where
  "ai_generate_execute ext config context sid w =
     (case extract_variables config context of
        Inl e \<Rightarrow> (Inl e, w)
      | Inr vars \<Rightarrow>
          (case ai_generate_loop ext config vars context sid 0 None w of
             (r, w') \<Rightarrow> (Inr r, w')))"

text \<open>
  \<open>MockAIProvider.generate\<close> of app/agent/mock.py, the world being its
  \<open>call_count\<close>; \<open>_generate_from_schema\<close> draws random values and is a parameter.
\<close>

definition mock_generate ::
  "string \<Rightarrow> (json \<Rightarrow> error + json) \<Rightarrow> nat \<Rightarrow> string \<Rightarrow> dict \<Rightarrow> json \<Rightarrow> (error + json) \<times> nat" where
  "mock_generate mode generate_from_schema call_count tid vars schema =
     (let call_count = call_count + 1
      in if mode = ''timeout'' then (Inl (TimeoutError ''Mock AI provider timed out''), call_count)
         else if mode = ''transient_error'' \<and> call_count = 1 then
           (Inl (ValueError ''Transient error (will succeed on retry)''), call_count)
         else if mode = ''schema_violation'' then
           (Inr (JObj [''invalid'' \<mapsto> JStr ''response'']), call_count)
         else (generate_from_schema schema, call_count))"

section \<open>Approval executor (app/executors/approval.py)\<close>

text \<open>
  \<open>ApprovalExecutor.execute\<close>: a fresh token, the approval metadata written to
  \<open>context["runtime"][<step_id>_approval]\<close>, the pause signal. The printed mock e-mails
  are output only and left out.
\<close>

definition approval_execute ::
  "'w ext \<Rightarrow> string list \<Rightarrow> context \<Rightarrow> string \<Rightarrow> 'w \<Rightarrow> (error + dict \<times> context) \<times> 'w" where
  "approval_execute ext approver_list context sid w =
     (case token_urlsafe ext w of
        (approval_token, w') \<Rightarrow>
          (case context ''runtime'' of
             None \<Rightarrow> (Inl (KeyError ''runtime''), w')
           | Some runtime \<Rightarrow>
               (Inr ([''pause'' \<mapsto> JBool True, ''waiting_for'' \<mapsto> JStr ''approval'',
                      ''approval_token'' \<mapsto> JStr approval_token,
                      ''approvers'' \<mapsto> JList (map JStr approver_list)],
                     context(''runtime'' \<mapsto> runtime(sid @ ''_approval'' \<mapsto>
                       JObj [''token'' \<mapsto> JStr approval_token,
                             ''approvers'' \<mapsto> JList (map JStr approver_list),
                             ''status'' \<mapsto> JStr ''pending'']))),
                w')))"

section \<open>Form executor: execute\<close>

text \<open>
  \<open>FormExecutor.execute\<close>: the field schema written to
  \<open>context["runtime"][<step_id>_schema]\<close> and the pause signal.
\<close>

definition form_execute ::
  "step_config_field list \<Rightarrow> context \<Rightarrow> string \<Rightarrow> error + dict \<times> context" where
  "form_execute flds context sid =
     (case context ''runtime'' of
        None \<Rightarrow> Inl (KeyError ''runtime'')
      | Some runtime \<Rightarrow>
          Inr ([''pause'' \<mapsto> JBool True, ''waiting_for'' \<mapsto> JStr ''form'',
                ''fields_schema'' \<mapsto> JList (map field_dump flds)],
               context(''runtime'' \<mapsto> runtime(sid @ ''_schema'' \<mapsto> JList (map field_dump flds)))))"

section \<open>Conditional executor: execute\<close>

text \<open>
  \<open>_merge_context_namespaces\<close>: static first, runtime last, each layer that is in the
  context updating the namespace.
\<close>

definition merge_context_namespaces :: "context \<Rightarrow> dict" where
  "merge_context_namespaces context =
     foldl (\<lambda>namespace layer. case context layer of None \<Rightarrow> namespace
                                | Some d \<Rightarrow> namespace ++ d)
           Map.empty [''static'', ''profile'', ''runtime'']"

text \<open>\<open>str.lower()\<close> on code points below 256.\<close>

definition lower_char :: "char \<Rightarrow> char" where
  "lower_char c = (let n = (of_char c :: nat)
     in if (65 \<le> n \<and> n \<le> 90) \<or> (192 \<le> n \<and> n \<le> 222 \<and> n \<noteq> 215)
        then char_of (n + 32) else c)"

definition lower :: "string \<Rightarrow> string" where
  "lower s = map lower_char s"

text \<open>
  \<open>ConditionalExecutor.execute\<close>: validation, evaluation in the interpreter loaded
  with the merged namespace, the classification of the interpreter's first error, and the
  boolean coercion of the value. It never pauses and never writes to the context.
\<close>

definition conditional_execute ::
  "'w ext \<Rightarrow> string \<Rightarrow> context \<Rightarrow> string \<Rightarrow> error + dict \<times> context" where
  "conditional_execute ext expression context sid =
     (case validate_expression expression of
        Inl e \<Rightarrow> Inl e
      | Inr u \<Rightarrow>
          (case interpreter ext (merge_context_namespaces context) expression of
             RaisedSyntaxOrTypeError m \<Rightarrow> Inl (ValueError (''Invalid expression syntax: '' @ m))
           | ErrorList error_msg \<Rightarrow>
               (if contains ''not defined'' error_msg then Inl (NameError error_msg)
                else if contains ''invalid syntax'' error_msg \<or> contains ''SyntaxError'' error_msg
                  then Inl (ValueError ''Invalid expression syntax'')
                else if contains ''import'' (lower error_msg)
                  then Inl (ValueError ''Import not allowed in expressions'')
                else Inl (ValueError (''Expression evaluation failed: '' @ error_msg)))
           | Evaluated v \<Rightarrow>
               Inr ([''result'' \<mapsto> JBool (truthy v), ''expression'' \<mapsto> JStr expression],
                    context)))"

section \<open>Persistent state (app/db/models.py)\<close>

text \<open>
  A step's \<open>config\<close> column is JSON that pydantic parses into the configuration of
  the step's type: each part below is the parsed value of the keys one configuration class
  requires, or \<open>None\<close> when those keys are missing or ill-typed. Timestamps and the
  workflow's \<open>definition\<close> JSON are left out.
\<close>

record step_config =
  cfg_fields :: "step_config_field list option"
  cfg_ai_generate :: "ai_generate_step_config option"
  cfg_when :: "string option"
  cfg_approvers :: "string list option"

record step =
  step_id :: string
  stype :: string
  step_name :: string
  next_step :: "string option"
  config :: step_config

record workflow =
  wf_id :: string
  version :: int
  wf_name :: string
  start_step :: string
  steps :: "step list"

record run =
  run_id :: string
  workflow_id :: string
  workflow_version :: int
  status :: string
  current_step :: "string option"
  run_context :: "context"
  idempotency_key :: "string option"

record run_step =
  rs_id :: string
  rs_run_id :: string
  rs_step_id :: string
  rs_type :: string
  rs_status :: string
  rs_output :: "dict option"
  rs_error :: "string option"

record database =
  workflows :: "workflow list"
  runs :: "run list"
  run_steps :: "run_step list"

text \<open>\<open>Result.scalar_one_or_none()\<close> and \<open>Result.scalar_one()\<close> on the rows selected.\<close>

fun scalar_one_or_none :: "'a list \<Rightarrow> error + 'a option" where
  "scalar_one_or_none [] = Inr None"
| "scalar_one_or_none [x] = Inr (Some x)"
| "scalar_one_or_none xs = Inl MultipleResultsFound"

fun scalar_one :: "'a list \<Rightarrow> error + 'a" where
  "scalar_one [] = Inl NoResultFound"
| "scalar_one [x] = Inr x"
| "scalar_one xs = Inl MultipleResultsFound"

definition select_workflow :: "database \<Rightarrow> string \<Rightarrow> workflow list" where
  "select_workflow db wid = filter (\<lambda>wflow. wf_id wflow = wid) (workflows db)"

definition select_run :: "database \<Rightarrow> string \<Rightarrow> run list" where
  "select_run db rid = filter (\<lambda>r. run_id r = rid) (runs db)"

definition select_run_by_key :: "database \<Rightarrow> string \<Rightarrow> run list" where
  "select_run_by_key db k = filter (\<lambda>r. idempotency_key r = Some k) (runs db)"

text \<open>
  \<open>session.add(run); session.commit()\<close> for a new run: the primary key and the unique
  constraint on \<open>idempotency_key\<close> (null keys never conflict) are checked.
\<close>

definition insert_run :: "database \<Rightarrow> run \<Rightarrow> error + database" where
  "insert_run db r =
     (if run_id r \<in> set (map run_id (runs db)) then
        Inl (IntegrityError ''UNIQUE constraint failed: runs.id'')
      else if idempotency_key r \<noteq> None
              \<and> idempotency_key r \<in> set (map idempotency_key (runs db)) then
        Inl (IntegrityError ''UNIQUE constraint failed: runs.idempotency_key'')
      else Inr (db\<lparr>runs := runs db @ [r]\<rparr>))"

text \<open>
  \<open>session.commit()\<close> with the session's run modified and history records added: the
  run's row is replaced by the working copy and the records are appended. A rollback drops
  the working copy; the database value is what was last committed.
\<close>

definition commit :: "database \<Rightarrow> run \<Rightarrow> run_step list \<Rightarrow> database" where
  "commit db r added =
     db\<lparr>runs := map (\<lambda>row. if run_id row = run_id r then r else row) (runs db),
        run_steps := run_steps db @ added\<rparr>"

section \<open>Orchestrator (app/engine/orchestrator.py)\<close>

text \<open>Truthiness of an optional string (\<open>while run.current_step:\<close>, \<open>if idempotency_key:\<close>).\<close>

fun nonempty :: "string option \<Rightarrow> bool" where
  "nonempty None = False"
| "nonempty (Some s) = (s \<noteq> [])"

text \<open>The pydantic parse of a configuration that lacks its required keys.\<close>

definition config_error :: "string \<Rightarrow> error" where
  "config_error cls = PydanticValidationError (''1 validation error for '' @ cls)"

text \<open>\<open>WorkflowEngine.execute_step\<close>: the dispatch on the step's type.\<close>

definition execute_step ::
  "'w ext \<Rightarrow> 'w \<Rightarrow> run \<Rightarrow> step \<Rightarrow> (error + dict \<times> context) \<times> 'w" where
  "execute_step ext w r s =
     (if stype s = ''form'' then
        (case cfg_fields (config s) of
           None \<Rightarrow> (Inl (config_error ''FormStepConfig''), w)
         | Some flds \<Rightarrow> (form_execute flds (run_context r) (step_id s), w))
      else if stype s = ''ai_generate'' then
        (case cfg_ai_generate (config s) of
           None \<Rightarrow> (Inl (config_error ''AIGenerateStepConfig''), w)
         | Some ai_config \<Rightarrow>
             ai_generate_execute ext ai_config (run_context r) (step_id s) (new_provider ext w))
      else if stype s = ''conditional'' then
        (case cfg_when (config s) of
           None \<Rightarrow> (Inl (config_error ''ConditionalStepConfig''), w)
         | Some expression \<Rightarrow> (conditional_execute ext expression (run_context r) (step_id s), w))
      else if stype s = ''api_call'' then
        (Inl (NotImplementedError ''API call executor not yet implemented (WP-006)''), w)
      else if stype s = ''approval'' then
        (case cfg_approvers (config s) of
           None \<Rightarrow> (Inl (config_error ''ApprovalStepConfig''), w)
         | Some approver_list \<Rightarrow> approval_execute ext approver_list (run_context r) (step_id s) w)
      else (Inl (ValueError (''Unsupported step type: '' @ stype s)), w))"

text \<open>
  \<open>step_map = {step.step_id: step for step in workflow.steps}\<close>: a later step with the
  same id replaces an earlier one.
\<close>

definition step_map :: "step list \<Rightarrow> (string \<rightharpoonup> step)" where
  "step_map ss = foldl (\<lambda>m s. m(step_id s \<mapsto> s)) Map.empty ss"

text \<open>\<open>result.get("pause")\<close> as a condition.\<close>

definition pause_signal :: "dict \<Rightarrow> bool" where
  "pause_signal result = (case result ''pause'' of None \<Rightarrow> False | Some v \<Rightarrow> truthy v)"

definition completed_step :: "string \<Rightarrow> run \<Rightarrow> step \<Rightarrow> dict \<Rightarrow> run_step" where
  "completed_step new_id r s result =
     \<lparr>rs_id = new_id, rs_run_id = run_id r, rs_step_id = step_id s, rs_type = stype s,
      rs_status = ''completed'', rs_output = Some result, rs_error = None\<rparr>"

definition failed_step :: "string \<Rightarrow> run \<Rightarrow> step \<Rightarrow> string \<Rightarrow> run_step" where
  "failed_step new_id r s error_msg =
     \<lparr>rs_id = new_id, rs_run_id = run_id r, rs_step_id = step_id s, rs_type = stype s,
      rs_status = ''failed'', rs_output = None, rs_error = Some error_msg\<rparr>"

text \<open>
  The \<open>while run.current_step:\<close> loop of \<open>_execute_workflow\<close>. The loop may run
  forever (a cycle of steps that never pause), so it takes fuel, one unit per iteration,
  and \<open>None\<close> means the fuel ran out. The result is the exception raised or the run as
  the session holds it at the return, with the committed database and the world.
  In the \<open>except\<close> branch the rollback discards the working copy: the run is fetched
  again from the committed database, the failed record is added, the status set and both
  committed, and the exception is raised again.
\<close>

fun execute_workflow_loop ::
  "'w ext \<Rightarrow> (string \<rightharpoonup> step) \<Rightarrow> nat \<Rightarrow> 'w \<Rightarrow> database \<Rightarrow> run
     \<Rightarrow> ((error + run) \<times> database \<times> 'w) option" where
  "execute_workflow_loop ext smap 0 w db r = None"
| "execute_workflow_loop ext smap (Suc fuel) w db r =
     (case current_step r of
        None \<Rightarrow> Some (Inr r, db, w)
      | Some cur \<Rightarrow>
          if cur = [] then Some (Inr r, db, w)
          else
            (case smap cur of
               None \<Rightarrow>
                 Some (Inl (ValueError (''Step '' @ cur @ '' not found in workflow'')),
                       commit db (r\<lparr>status := ''failed''\<rparr>) [], w)
             | Some s \<Rightarrow>
                 (case execute_step ext w r s of
                    (Inr (result, context'), w1) \<Rightarrow>
                      (case uuid4 ext w1 of
                         (new_id, w2) \<Rightarrow>
                           if pause_signal result then
                             Some (Inr (r\<lparr>run_context := context', status := ''waiting''\<rparr>),
                                   commit db (r\<lparr>run_context := context', status := ''waiting''\<rparr>)
                                     [completed_step new_id r s result], w2)
                           else if nonempty (next_step s) then
                             execute_workflow_loop ext smap fuel w2
                               (commit db (r\<lparr>run_context := context', current_step := next_step s\<rparr>)
                                  [completed_step new_id r s result])
                               (r\<lparr>run_context := context', current_step := next_step s\<rparr>)
                           else
                             Some (Inr (r\<lparr>run_context := context', current_step := next_step s,
                                          status := ''completed''\<rparr>),
                                   commit
                                     (commit db (r\<lparr>run_context := context',
                                                   current_step := next_step s\<rparr>)
                                        [completed_step new_id r s result])
                                     (r\<lparr>run_context := context', current_step := next_step s,
                                        status := ''completed''\<rparr>) [],
                                   w2))
                  | (Inl e, w1) \<Rightarrow>
                      (case scalar_one (select_run db (run_id r)) of
                         Inl e' \<Rightarrow> Some (Inl e', db, w1)
                       | Inr r0 \<Rightarrow>
                           (case uuid4 ext w1 of
                              (new_id, w2) \<Rightarrow>
                                Some (Inl e,
                                      commit db (r0\<lparr>status := ''failed''\<rparr>)
                                        [failed_step new_id r s (str_of_error e)],
                                      w2))))))"

text \<open>\<open>WorkflowEngine._execute_workflow\<close>: the workflow is fetched, then the loop runs.\<close>

definition execute_workflow ::
  "'w ext \<Rightarrow> nat \<Rightarrow> 'w \<Rightarrow> database \<Rightarrow> run \<Rightarrow> ((error + run) \<times> database \<times> 'w) option" where
  "execute_workflow ext fuel w db r =
     (case scalar_one_or_none (select_workflow db (workflow_id r)) of
        Inl e \<Rightarrow> Some (Inl e, db, w)
      | Inr None \<Rightarrow> Some (Inl (ValueError (''Workflow '' @ workflow_id r @ '' not found'')), db, w)
      | Inr (Some wflow) \<Rightarrow> execute_workflow_loop ext (step_map (steps wflow)) fuel w db r)"

text \<open>
  \<open>WorkflowEngine.start_run\<close>: the idempotency lookup, the workflow lookup, the new run
  inserted and committed, then the advance loop.
\<close>

definition start_run ::
  "'w ext \<Rightarrow> nat \<Rightarrow> 'w \<Rightarrow> database \<Rightarrow> string \<Rightarrow> dict \<Rightarrow> string option
     \<Rightarrow> ((error + run) \<times> database \<times> 'w) option" where
  "start_run ext fuel w db wid inputs key_opt =
     (case (case key_opt of
              None \<Rightarrow> Inr None
            | Some k \<Rightarrow> if k \<noteq> [] then scalar_one_or_none (select_run_by_key db k)
                        else Inr None) of
        Inl e \<Rightarrow> Some (Inl e, db, w)
      | Inr (Some existing_run) \<Rightarrow> Some (Inr existing_run, db, w)
      | Inr None \<Rightarrow>
          (case scalar_one_or_none (select_workflow db wid) of
             Inl e \<Rightarrow> Some (Inl e, db, w)
           | Inr None \<Rightarrow> Some (Inl (ValueError (''Workflow '' @ wid @ '' not found'')), db, w)
           | Inr (Some wflow) \<Rightarrow>
               (case uuid4 ext w of
                  (new_id, w1) \<Rightarrow>
                    (case insert_run db
                            \<lparr>run_id = new_id, workflow_id = wid, workflow_version = version wflow,
                             status = ''running'', current_step = Some (start_step wflow),
                             run_context = [''static'' \<mapsto> Map.empty, ''profile'' \<mapsto> Map.empty,
                                            ''runtime'' \<mapsto> inputs],
                             idempotency_key = key_opt\<rparr> of
                       Inl e \<Rightarrow> Some (Inl e, db, w1)
                     | Inr db1 \<Rightarrow>
                         execute_workflow ext fuel w1 db1
                           \<lparr>run_id = new_id, workflow_id = wid, workflow_version = version wflow,
                            status = ''running'', current_step = Some (start_step wflow),
                            run_context = [''static'' \<mapsto> Map.empty, ''profile'' \<mapsto> Map.empty,
                                           ''runtime'' \<mapsto> inputs],
                            idempotency_key = key_opt\<rparr>))))"

text \<open>
  The approval branch of \<open>resume_run\<close>: the structure of the resume data is checked,
  the decision is stored in the approval metadata when the runtime context has it, and the
  run moves to the step's \<open>next\<close>.
\<close>

definition record_approval :: "run \<Rightarrow> string \<Rightarrow> step \<Rightarrow> dict \<Rightarrow> error + run" where
  "record_approval r cur s inputs =
     (case inputs ''approval'' of
        None \<Rightarrow> Inl (ValueError (''Missing '' @ quoted ''approval'' @ '' key in resume data''))
      | Some (JObj approval_data) \<Rightarrow>
          (case approval_data ''approved'' of
             None \<Rightarrow> Inl (ValueError (''Missing '' @ quoted ''approved''
                                      @ '' field in approval data''))
           | Some approved \<Rightarrow>
               (case run_context r ''runtime'' of
                  None \<Rightarrow> Inl (KeyError ''runtime'')
                | Some runtime \<Rightarrow>
                    (case runtime (cur @ ''_approval'') of
                       None \<Rightarrow> Inr (r\<lparr>current_step := next_step s\<rparr>)
                     | Some (JObj meta) \<Rightarrow>
                         Inr (r\<lparr>run_context := (run_context r)(''runtime'' \<mapsto>
                                  runtime(cur @ ''_approval'' \<mapsto>
                                    JObj (meta(''status'' \<mapsto>
                                                 JStr (if truthy approved then ''approved''
                                                       else ''rejected''),
                                               ''comments'' \<mapsto>
                                                 (case approval_data ''comments'' of
                                                    None \<Rightarrow> JStr []
                                                  | Some c \<Rightarrow> c))))),
                               current_step := next_step s\<rparr>)
                     | Some other \<Rightarrow>
                         Inl (TypeError ''object does not support item assignment''))))
      | Some other \<Rightarrow> Inl (ValueError ''Approval data must be a dictionary''))"

text \<open>
  The body of \<open>if inputs:\<close> in \<open>resume_run\<close>: validation by the type of the current
  step, then \<open>run.context["runtime"].update(inputs)\<close>. With no inputs (or an empty
  dictionary) the run is left as it is.
\<close>

definition merge_inputs :: "run \<Rightarrow> dict \<Rightarrow> error + run" where
  "merge_inputs r inputs =
     (case run_context r ''runtime'' of
        None \<Rightarrow> Inl (KeyError ''runtime'')
      | Some runtime \<Rightarrow> Inr (r\<lparr>run_context := (run_context r)(''runtime'' \<mapsto> runtime ++ inputs)\<rparr>))"

definition resume_inputs :: "database \<Rightarrow> run \<Rightarrow> dict option \<Rightarrow> error + run" where
  "resume_inputs db r inputs_opt =
     (case inputs_opt of
        None \<Rightarrow> Inr r
      | Some inputs \<Rightarrow>
          if inputs = Map.empty then Inr r
          else
            (case current_step r of
               None \<Rightarrow> merge_inputs r inputs
             | Some cur \<Rightarrow>
                 if cur = [] then merge_inputs r inputs
                 else
                   (case scalar_one_or_none (select_workflow db (workflow_id r)) of
                      Inl e \<Rightarrow> Inl e
                    | Inr None \<Rightarrow> merge_inputs r inputs
                    | Inr (Some wflow) \<Rightarrow>
                        (case step_map (steps wflow) cur of
                           None \<Rightarrow> merge_inputs r inputs
                         | Some s \<Rightarrow>
                             if stype s = ''form'' then
                               (case cfg_fields (config s) of
                                  None \<Rightarrow> Inl (config_error ''FormStepConfig'')
                                | Some flds \<Rightarrow>
                                    (case validate_fields flds inputs of
                                       Inl e \<Rightarrow> Inl e
                                     | Inr validated_inputs \<Rightarrow>
                                         merge_inputs (r\<lparr>current_step := next_step s\<rparr>)
                                           validated_inputs))
                             else if stype s = ''approval'' then
                               (case record_approval r cur s inputs of
                                  Inl e \<Rightarrow> Inl e
                                | Inr r1 \<Rightarrow> merge_inputs r1 inputs)
                             else merge_inputs r inputs))))"

text \<open>
  \<open>WorkflowEngine.resume_run\<close>: the run is fetched and must be waiting; the inputs are
  validated and merged; the status goes back to running and is committed; the advance loop
  runs; the run is refreshed from the database.
\<close>

definition resume_run ::
  "'w ext \<Rightarrow> nat \<Rightarrow> 'w \<Rightarrow> database \<Rightarrow> string \<Rightarrow> dict option
     \<Rightarrow> ((error + run) \<times> database \<times> 'w) option" where
  "resume_run ext fuel w db rid inputs_opt =
     (case scalar_one_or_none (select_run db rid) of
        Inl e \<Rightarrow> Some (Inl e, db, w)
      | Inr None \<Rightarrow> Some (Inl (ValueError (''Run '' @ rid @ '' not found'')), db, w)
      | Inr (Some r) \<Rightarrow>
          if status r \<noteq> ''waiting'' then
            Some (Inl (ValueError (''Run '' @ rid @ '' is not in waiting state (status=''
                                   @ status r @ '')'')), db, w)
          else
            (case resume_inputs db r inputs_opt of
               Inl e \<Rightarrow> Some (Inl e, db, w)
             | Inr r1 \<Rightarrow>
                 (case execute_workflow ext fuel w
                         (commit db (r1\<lparr>status := ''running''\<rparr>) [])
                         (r1\<lparr>status := ''running''\<rparr>) of
                    None \<Rightarrow> None
                  | Some (Inl e, db2, w2) \<Rightarrow> Some (Inl e, db2, w2)
                  | Some (Inr r2, db2, w2) \<Rightarrow>
                      (case scalar_one (select_run db2 (run_id r2)) of
                         Inl e \<Rightarrow> Some (Inl e, db2, w2)
                       | Inr row \<Rightarrow> Some (Inr row, db2, w2)))))"

section \<open>Collaborators for the worked examples\<close>

text \<open>
  A concrete world for the examples: the call count of a \<open>MockAIProvider\<close> and a
  counter from which \<open>uuid4\<close> and \<open>token_urlsafe\<close> draw distinct strings. Schema
  validation is the \<open>required\<close> keyword of JSON Schema alone, the interpreter evaluates
  an expression that is a single name, and \<open>_generate_from_schema\<close> returns a fixed
  object.
\<close>

definition required_validate :: "json \<Rightarrow> json \<Rightarrow> error option" where
  "required_validate instance schema =
     (case (instance, schema) of
        (JObj obj, JObj sch) \<Rightarrow>
          (case sch ''required'' of
             Some (JList names) \<Rightarrow>
               (case filter (\<lambda>n. case n of JStr k \<Rightarrow> obj k = None | _ \<Rightarrow> False) names of
                  [] \<Rightarrow> None
                | JStr k # rest \<Rightarrow> Some (ValidationError (quoted k @ '' is a required property''))
                | other # rest \<Rightarrow> None)
           | _ \<Rightarrow> None)
      | _ \<Rightarrow> None)"

definition name_interpreter :: "dict \<Rightarrow> string \<Rightarrow> interp_result" where
  "name_interpreter namespace expression =
     (case namespace expression of
        Some v \<Rightarrow> Evaluated v
      | None \<Rightarrow> ErrorList (''name '' @ quoted expression @ '' is not defined''))"

definition example_ext :: "string \<Rightarrow> (nat \<times> nat) ext" where
  "example_ext mode =
     \<lparr>generate = (\<lambda>(call_count, n) tid vars schema.
         case mock_generate mode (\<lambda>sch. Inr (JObj [''x'' \<mapsto> JStr ''mock_value_1'']))
                call_count tid vars schema of
           (res, call_count') \<Rightarrow> (res, (call_count', n))),
      validate = required_validate,
      new_provider = (\<lambda>(call_count, n). (0, n)),
      interpreter = name_interpreter,
      uuid4 = (\<lambda>(call_count, n). (replicate (Suc n) (CHR ''u''), (call_count, Suc n))),
      token_urlsafe = (\<lambda>(call_count, n). (replicate (Suc n) (CHR ''t''), (call_count, Suc n)))\<rparr>"

text \<open>A run waiting at a form step, for the examples.\<close>

definition example_run :: run where
  "example_run =
     \<lparr>run_id = ''r1'', workflow_id = ''wf1'', workflow_version = 1, status = ''waiting'',
      current_step = Some ''form'',
      run_context = [''static'' \<mapsto> Map.empty, ''profile'' \<mapsto> Map.empty,
                     ''runtime'' \<mapsto> [''initial'' \<mapsto> JStr ''data'']],
      idempotency_key = Some ''k''\<rparr>"

text \<open>
  Single-step workflows, one per step type, with the database that holds one of them; a
  run in the middle of the advance loop; and the run and database a StartRun leaves behind
  when the step pauses.
\<close>

definition no_config :: step_config where
  "no_config = \<lparr>cfg_fields = None, cfg_ai_generate = None, cfg_when = None, cfg_approvers = None\<rparr>"

definition form_step :: step where
  "form_step = \<lparr>step_id = ''form'', stype = ''form'', step_name = ''Collect name'',
     next_step = None,
     config = no_config\<lparr>cfg_fields :=
       Some [\<lparr>key = ''name'', ftype = ''text'', required = True, pattern = None\<rparr>]\<rparr>\<rparr>"

definition approval_step :: step where
  "approval_step = \<lparr>step_id = ''approval'', stype = ''approval'', step_name = ''Manager approval'',
     next_step = None, config = no_config\<lparr>cfg_approvers := Some [''m@x'']\<rparr>\<rparr>"

definition conditional_step :: step where
  "conditional_step = \<lparr>step_id = ''cond'', stype = ''conditional'', step_name = ''Check'',
     next_step = None, config = no_config\<lparr>cfg_when := Some ''undefined''\<rparr>\<rparr>"

definition ai_config :: ai_generate_step_config where
  "ai_config = \<lparr>template_id = ''greet'', variables = [''name''],
                 json_schema = JObj [''required'' \<mapsto> JList [JStr ''x'']]\<rparr>"

definition ai_step :: step where
  "ai_step = \<lparr>step_id = ''ai'', stype = ''ai_generate'', step_name = ''Generate'',
     next_step = None, config = no_config\<lparr>cfg_ai_generate := Some ai_config\<rparr>\<rparr>"

definition example_db :: "step \<Rightarrow> database" where
  "example_db s =
     \<lparr>workflows = [\<lparr>wf_id = ''wf1'', version = 1, wf_name = ''example'',
                     start_step = step_id s, steps = [s]\<rparr>],
      runs = [], run_steps = []\<rparr>"

definition example_context :: "context" where
  "example_context = [''static'' \<mapsto> Map.empty, ''profile'' \<mapsto> Map.empty,
                      ''runtime'' \<mapsto> [''name'' \<mapsto> JStr ''Diana'']]"

definition running_run :: "string \<Rightarrow> run" where
  "running_run cur = \<lparr>run_id = ''u'', workflow_id = ''wf1'', workflow_version = 1,
     status = ''running'', current_step = Some cur, run_context = example_context,
     idempotency_key = None\<rparr>"

definition running_db :: "step \<Rightarrow> database" where
  "running_db s = (example_db s)\<lparr>runs := [running_run (step_id s)]\<rparr>"

definition started_run :: "string \<Rightarrow> dict \<Rightarrow> string option \<Rightarrow> run" where
  "started_run cur runtime key_opt =
     \<lparr>run_id = ''u'', workflow_id = ''wf1'', workflow_version = 1,
      status = ''waiting'', current_step = Some cur,
      run_context = [''static'' \<mapsto> Map.empty, ''profile'' \<mapsto> Map.empty,
                     ''runtime'' \<mapsto> runtime],
      idempotency_key = key_opt\<rparr>"

definition form_runtime :: dict where
  "form_runtime = [''initial'' \<mapsto> JStr ''data'',
     ''form_schema'' \<mapsto> JList [field_dump
        \<lparr>key = ''name'', ftype = ''text'', required = True, pattern = None\<rparr>]]"

definition approval_runtime :: dict where
  "approval_runtime = [''approval_approval'' \<mapsto>
     JObj [''token'' \<mapsto> JStr ''tt'', ''approvers'' \<mapsto> JList [JStr ''m@x''],
           ''status'' \<mapsto> JStr ''pending'']]"

definition started_db :: "step \<Rightarrow> run \<Rightarrow> dict \<Rightarrow> database" where
  "started_db s r result =
     (example_db s)\<lparr>runs := [r],
        run_steps := [\<lparr>rs_id = ''uu'', rs_run_id = ''u'', rs_step_id = step_id s,
                        rs_type = stype s, rs_status = ''completed'',
                        rs_output = Some result, rs_error = None\<rparr>]\<rparr>"

definition form_pause :: dict where
  "form_pause = [''pause'' \<mapsto> JBool True, ''waiting_for'' \<mapsto> JStr ''form'',
     ''fields_schema'' \<mapsto> JList [field_dump
        \<lparr>key = ''name'', ftype = ''text'', required = True, pattern = None\<rparr>]]"

definition approval_pause :: dict where
  "approval_pause = [''pause'' \<mapsto> JBool True, ''waiting_for'' \<mapsto> JStr ''approval'',
     ''approval_token'' \<mapsto> JStr ''tt'', ''approvers'' \<mapsto> JList [JStr ''m@x'']]"

definition decided_runtime :: "string \<Rightarrow> json \<Rightarrow> dict \<Rightarrow> dict" where
  "decided_runtime decision comments inputs =
     [''approval_approval'' \<mapsto>
        JObj [''token'' \<mapsto> JStr ''tt'', ''approvers'' \<mapsto> JList [JStr ''m@x''],
              ''status'' \<mapsto> JStr decision, ''comments'' \<mapsto> comments]] ++ inputs"

text \<open>
  A run that failed at a conditional step naming an undefined variable, and a two-step
  workflow (form, then that conditional step) with a run waiting at the form.
\<close>

definition name_error :: error where
  "name_error = NameError (''name '' @ quoted ''undefined'' @ '' is not defined'')"

definition failed_run :: "string option \<Rightarrow> run" where
  "failed_run key_opt =
     \<lparr>run_id = ''u'', workflow_id = ''wf1'', workflow_version = 1, status = ''failed'',
      current_step = Some ''cond'',
      run_context = [''static'' \<mapsto> Map.empty, ''profile'' \<mapsto> Map.empty,
                     ''runtime'' \<mapsto> Map.empty],
      idempotency_key = key_opt\<rparr>"

definition failed_record :: "string \<Rightarrow> run_step" where
  "failed_record new_id =
     \<lparr>rs_id = new_id, rs_run_id = ''u'', rs_step_id = ''cond'', rs_type = ''conditional'',
      rs_status = ''failed'', rs_output = None, rs_error = Some (str_of_error name_error)\<rparr>"

definition failed_db :: "string option \<Rightarrow> database" where
  "failed_db key_opt =
     (example_db conditional_step)\<lparr>runs := [failed_run key_opt],
                                      run_steps := [failed_record ''uu'']\<rparr>"

definition pipeline :: workflow where
  "pipeline = \<lparr>wf_id = ''wf1'', version = 1, wf_name = ''example'', start_step = ''form'',
                steps = [form_step\<lparr>next_step := Some ''cond''\<rparr>, conditional_step]\<rparr>"

definition pipeline_db :: database where
  "pipeline_db = \<lparr>workflows = [pipeline], runs = [started_run ''form'' form_runtime None],
                   run_steps = []\<rparr>"

definition pipeline_failed_db :: database where
  "pipeline_failed_db =
     pipeline_db\<lparr>runs := [(started_run ''cond'' (form_runtime(''name'' \<mapsto> JStr ''Diana'')) None)
                               \<lparr>status := ''failed''\<rparr>],
                  run_steps := [failed_record ''uuu'']\<rparr>"

section \<open>Properties of the form executor\<close>

lemma validate_fields_loop_fails:
  "(\<exists>e. validate_fields_loop fs inputs acc = Inl e)
     = (\<exists>f\<in>set fs. field_invalid f inputs)"
proof (induction fs arbitrary: acc)
  case Nil
  show ?case by simp
next
  case (Cons f fs)
  show ?case
  proof (cases "inputs (key f)")
    case None
    with Cons show ?thesis by (auto simp: field_invalid_def)
  next
    case (Some v)
    with Cons show ?thesis
      by (cases v) (auto simp: field_invalid_def)
  qed
qed

lemma validate_fields_loop_ValueError:
  "validate_fields_loop fs inputs acc = Inl e \<Longrightarrow> \<exists>msg. e = ValueError msg"
proof (induction fs arbitrary: acc)
  case Nil
  then show ?case by simp
next
  case (Cons f fs)
  then show ?case
    by (auto split: if_splits option.splits json.splits)
qed

lemma validate_fields_loop_result:
  "validate_fields_loop fs inputs acc = Inr out \<Longrightarrow>
     out = (\<lambda>k. if k \<in> key ` set fs \<and> inputs k \<noteq> None then inputs k else acc k)"
proof (induction fs arbitrary: acc)
  case Nil
  then show ?case by auto
next
  case (Cons f fs)
  show ?case
  proof (cases "inputs (key f)")
    case None
    with Cons.prems have "validate_fields_loop fs inputs acc = Inr out"
      by (auto split: if_splits)
    from Cons.IH[OF this] None show ?thesis by (auto simp: fun_eq_iff)
  next
    case (Some v)
    with Cons.prems obtain s where v: "v = JStr s"
      and rec: "validate_fields_loop fs inputs (acc(key f \<mapsto> JStr s)) = Inr out"
      by (auto split: if_splits json.splits)
    from Cons.IH[OF rec] Some v show ?thesis by (auto simp: fun_eq_iff)
  qed
qed

lemma validate_fields_loop_cong:
  "(\<And>f. f \<in> set fs \<Longrightarrow> a (key f) = b (key f)) \<Longrightarrow>
     validate_fields_loop fs a acc = validate_fields_loop fs b acc"
  by (induction fs arbitrary: acc) (auto split: option.splits json.splits)

lemma validate_fields_result:
  assumes "validate_fields fs inputs = Inr out"
  shows "out = inputs |` (key ` set fs)"
proof -
  from assms have "validate_fields_loop fs inputs Map.empty = Inr out"
    by (simp add: validate_fields_def)
  from validate_fields_loop_result[OF this] show ?thesis
    by (auto simp: fun_eq_iff restrict_map_def)
qed

lemma validate_fields_idem:
  assumes ok: "validate_fields fs inputs = Inr out"
  shows "validate_fields fs out = Inr out"
proof -
  have out: "out = inputs |` (key ` set fs)"
    by (rule validate_fields_result[OF ok])
  have "\<And>f. f \<in> set fs \<Longrightarrow> out (key f) = inputs (key f)"
    by (simp add: out)
  then have "validate_fields_loop fs out Map.empty = validate_fields_loop fs inputs Map.empty"
    by (rule validate_fields_loop_cong)
  with ok show ?thesis by (simp add: validate_fields_def)
qed

text \<open>
  C7. \<open>validate_fields\<close> raises (a \<open>ValueError\<close>, the engine's Invalid) exactly when
  some configured field is required and absent, or present with a declared type outside
  text/textarea, or present with a value that is not a string. Otherwise it returns a
  sub-map of the inputs: exactly the inputs restricted to the configured keys, so extra keys
  and absent optional fields are dropped and every required field is there. Validation is
  idempotent: validating the output returns it unchanged.
\<close>

theorem validate_fields_spec:
  "((\<exists>e. validate_fields flds inputs = Inl e)
      = (\<exists>f\<in>set flds. field_invalid f inputs))
   \<and> (\<forall>e. validate_fields flds inputs = Inl e \<longrightarrow> (\<exists>msg. e = ValueError msg))
   \<and> (\<forall>out. validate_fields flds inputs = Inr out \<longrightarrow>
         out \<subseteq>\<^sub>m inputs
         \<and> (\<forall>f\<in>set flds. required f \<longrightarrow> key f \<in> dom out)
         \<and> dom out = dom inputs \<inter> key ` set flds
         \<and> validate_fields flds out = Inr out)"
proof (intro conjI allI impI)
  show "(\<exists>e. validate_fields flds inputs = Inl e)
      = (\<exists>f\<in>set flds. field_invalid f inputs)"
    unfolding validate_fields_def by (rule validate_fields_loop_fails)
next
  fix e assume "validate_fields flds inputs = Inl e"
  then show "\<exists>msg. e = ValueError msg"
    unfolding validate_fields_def by (rule validate_fields_loop_ValueError)
next
  fix out assume ok: "validate_fields flds inputs = Inr out"
  have out: "out = inputs |` (key ` set flds)"
    by (rule validate_fields_result[OF ok])
  show "out \<subseteq>\<^sub>m inputs"
    by (simp add: out map_le_def)
  show "dom out = dom inputs \<inter> key ` set flds"
    by (simp add: out)
  show "validate_fields flds out = Inr out"
    by (rule validate_fields_idem[OF ok])
  show "\<forall>f\<in>set flds. required f \<longrightarrow> key f \<in> dom out"
  proof (intro ballI impI)
    fix f assume f: "f \<in> set flds" and req: "required f"
    have "\<not> (\<exists>g\<in>set flds. field_invalid g inputs)"
      using validate_fields_loop_fails[of flds inputs Map.empty] ok
      by (simp add: validate_fields_def)
    with f have "\<not> field_invalid f inputs" by blast
    with req have "inputs (key f) \<noteq> None" by (auto simp: field_invalid_def)
    with f show "key f \<in> dom out" by (auto simp: out restrict_map_def)
  qed
qed

theorem validate_fields_spec_witness:
  "validate_fields
     [\<lparr>key = ''name'', ftype = ''text'', required = True, pattern = None\<rparr>,
      \<lparr>key = ''bio'', ftype = ''textarea'', required = False, pattern = None\<rparr>]
     [''name'' \<mapsto> JStr ''Diana'', ''extra'' \<mapsto> JInt 1]
     = Inr [''name'' \<mapsto> JStr ''Diana'']
   \<and> [''name'' \<mapsto> JStr ''Diana''] \<subseteq>\<^sub>m [''name'' \<mapsto> JStr ''Diana'', ''extra'' \<mapsto> JInt 1]
   \<and> ''name'' \<in> dom [''name'' \<mapsto> JStr ''Diana'']
   \<and> validate_fields
     [\<lparr>key = ''name'', ftype = ''text'', required = True, pattern = None\<rparr>,
      \<lparr>key = ''bio'', ftype = ''textarea'', required = False, pattern = None\<rparr>]
     [''name'' \<mapsto> JStr ''Diana''] = Inr [''name'' \<mapsto> JStr ''Diana'']
   \<and> (\<exists>msg. validate_fields
     [\<lparr>key = ''name'', ftype = ''text'', required = True, pattern = None\<rparr>]
     [''extra'' \<mapsto> JInt 1] = Inl (ValueError msg))"
proof -
  let ?F = "[\<lparr>key = ''name'', ftype = ''text'', required = True, pattern = None\<rparr>,
      \<lparr>key = ''bio'', ftype = ''textarea'', required = False, pattern = None\<rparr>]"
  let ?G = "[\<lparr>key = ''name'', ftype = ''text'', required = True, pattern = None\<rparr>]"
  let ?I = "[''name'' \<mapsto> JStr ''Diana'', ''extra'' \<mapsto> JInt 1]"
  let ?J = "[''extra'' \<mapsto> JInt (1::int)]"
  have ev: "validate_fields ?F ?I = Inr [''name'' \<mapsto> JStr ''Diana'']"
    by (simp add: validate_fields_def)
  have bad: "\<exists>f\<in>set ?G. field_invalid f ?J"
    by (simp add: field_invalid_def)
  from validate_fields_spec[of ?G ?J] bad
  have "\<exists>msg. validate_fields ?G ?J = Inl (ValueError msg)" by blast
  with validate_fields_spec[of ?F ?I] ev show ?thesis by simp
qed

section \<open>Properties of the expression validation\<close>

lemma strip_empty_iff: "strip s = [] \<longleftrightarrow> (\<forall>c\<in>set s. isspace c)"
proof
  assume "strip s = []"
  then have a: "\<forall>c\<in>set (dropWhile isspace s). isspace c"
    by (simp add: strip_def dropWhile_eq_Nil_conv)
  have "dropWhile isspace s = []"
  proof (rule ccontr)
    assume ne: "dropWhile isspace s \<noteq> []"
    then have "\<not> isspace (hd (dropWhile isspace s))" by (rule hd_dropWhile)
    moreover from ne have "hd (dropWhile isspace s) \<in> set (dropWhile isspace s)" by simp
    ultimately show False using a by blast
  qed
  then show "\<forall>c\<in>set s. isspace c" by (simp add: dropWhile_eq_Nil_conv)
next
  assume "\<forall>c\<in>set s. isspace c"
  then have d: "dropWhile isspace s = []" by (simp add: dropWhile_eq_Nil_conv)
  show "strip s = []" unfolding strip_def d by simp
qed

lemma attribute_search_iff:
  "attribute_search s \<longleftrightarrow>
     (\<exists>i. Suc i < length s \<and> is_letter_or_underscore (s ! i) \<and> s ! Suc i = CHR ''.'')"
proof (induction s rule: attribute_search.induct)
  case (1 a b cs)
  show ?case
  proof
    assume "attribute_search (a # b # cs)"
    then consider "is_letter_or_underscore a \<and> b = CHR ''.''" | "attribute_search (b # cs)"
      by auto
    then show "\<exists>i. Suc i < length (a # b # cs) \<and> is_letter_or_underscore ((a # b # cs) ! i)
                 \<and> (a # b # cs) ! Suc i = CHR ''.''"
    proof cases
      case 1
      then show ?thesis by (intro exI[of _ 0]) simp
    next
      case 2
      with 1 obtain i where "Suc i < length (b # cs)" "is_letter_or_underscore ((b # cs) ! i)"
        "(b # cs) ! Suc i = CHR ''.''" by blast
      then show ?thesis by (intro exI[of _ "Suc i"]) simp
    qed
  next
    assume "\<exists>i. Suc i < length (a # b # cs) \<and> is_letter_or_underscore ((a # b # cs) ! i)
                 \<and> (a # b # cs) ! Suc i = CHR ''.''"
    then obtain i where i: "Suc i < length (a # b # cs)"
      "is_letter_or_underscore ((a # b # cs) ! i)" "(a # b # cs) ! Suc i = CHR ''.''" by blast
    show "attribute_search (a # b # cs)"
    proof (cases i)
      case 0
      with i show ?thesis by simp
    next
      case (Suc j)
      with i have "Suc j < length (b # cs) \<and> is_letter_or_underscore ((b # cs) ! j)
         \<and> (b # cs) ! Suc j = CHR ''.''" by simp
      with 1 have "attribute_search (b # cs)" by blast
      then show ?thesis by simp
    qed
  qed
qed simp_all










text \<open>
  C8. The length limit of the sandbox: at exactly 256 characters the length never rejects,
  and an expression that is not blank and has no attribute access is accepted for
  evaluation; at 257 characters the expression is rejected with a \<open>ValueError\<close>
  (Invalid), the length error unless it is blank; an empty or whitespace-only expression is
  rejected as empty.
\<close>

theorem expression_length_boundary:
  "(length e = 256 \<and> strip e \<noteq> [] \<and> \<not> attribute_search e
      \<longrightarrow> validate_expression e = Inr ())
   \<and> (length e = 256 \<longrightarrow> validate_expression e
         \<noteq> Inl (ValueError ''Expression exceeds maximum length of 256 characters''))
   \<and> (length e = 257 \<longrightarrow> (\<exists>msg. validate_expression e = Inl (ValueError msg)))
   \<and> (length e = 257 \<and> strip e \<noteq> [] \<longrightarrow> validate_expression e
         = Inl (ValueError ''Expression exceeds maximum length of 256 characters''))
   \<and> ((\<forall>c\<in>set e. isspace c)
        \<longrightarrow> validate_expression e = Inl (ValueError ''Expression cannot be empty''))"
proof (intro conjI impI)
  show "validate_expression e = Inr ()"
    if "length e = 256 \<and> strip e \<noteq> [] \<and> \<not> attribute_search e"
    using that by (auto simp: validate_expression_def MAX_EXPRESSION_LENGTH_def strip_def)
  show "validate_expression e
         \<noteq> Inl (ValueError ''Expression exceeds maximum length of 256 characters'')"
    if "length e = 256"
    using that by (auto simp: validate_expression_def MAX_EXPRESSION_LENGTH_def)
  show "\<exists>msg. validate_expression e = Inl (ValueError msg)" if "length e = 257"
    using that by (auto simp: validate_expression_def MAX_EXPRESSION_LENGTH_def)
  show "validate_expression e
         = Inl (ValueError ''Expression exceeds maximum length of 256 characters'')"
    if "length e = 257 \<and> strip e \<noteq> []"
    using that by (auto simp: validate_expression_def MAX_EXPRESSION_LENGTH_def strip_def)
  show "validate_expression e = Inl (ValueError ''Expression cannot be empty'')"
    if "\<forall>c\<in>set e. isspace c"
  proof -
    from that have "strip e = []" by (simp only: strip_empty_iff)
    then show ?thesis unfolding validate_expression_def by simp
  qed
qed

theorem expression_length_boundary_witness:
  "validate_expression (replicate 256 (CHR ''1'')) = Inr ()
   \<and> validate_expression (replicate 257 (CHR ''1''))
       = Inl (ValueError ''Expression exceeds maximum length of 256 characters'')
   \<and> validate_expression [] = Inl (ValueError ''Expression cannot be empty'')
   \<and> validate_expression ''   '' = Inl (ValueError ''Expression cannot be empty'')"
proof -
  have n: "\<not> isspace (CHR ''1'')" by (simp add: isspace_def)
  have s256: "strip (replicate 256 (CHR ''1'')) \<noteq> []"
    unfolding strip_empty_iff using n by simp
  have s257: "strip (replicate 257 (CHR ''1'')) \<noteq> []"
    unfolding strip_empty_iff using n by simp
  have a: "\<not> attribute_search (replicate 256 (CHR ''1''))"
    unfolding attribute_search_iff by simp
  have l256: "length (replicate 256 (CHR ''1'')) = 256" by simp
  have l257: "length (replicate 257 (CHR ''1'')) = 257" by simp
  have e: "\<forall>c\<in>set ([]::string). isspace c" by simp
  have sp: "\<forall>c\<in>set ''   ''. isspace c" by (simp add: isspace_def)
  have r1: "validate_expression (replicate 256 (CHR ''1'')) = Inr ()"
    using expression_length_boundary[of "replicate 256 (CHR ''1'')"] l256 s256 a
    by (elim conjE) (rule mp, assumption, intro conjI)
  have r2: "validate_expression (replicate 257 (CHR ''1''))
       = Inl (ValueError ''Expression exceeds maximum length of 256 characters'')"
    using expression_length_boundary[of "replicate 257 (CHR ''1'')"] l257 s257
    by (elim conjE) (rule mp, assumption, intro conjI)
  have r3: "validate_expression [] = Inl (ValueError ''Expression cannot be empty'')"
    using expression_length_boundary[of "[]"] e
    by (elim conjE) (rule mp, assumption)
  have r4: "validate_expression ''   '' = Inl (ValueError ''Expression cannot be empty'')"
    using expression_length_boundary[of "''   ''"] sp
    by (elim conjE) (rule mp, assumption)
  from r1 r2 r3 r4 show ?thesis by (intro conjI)
qed


section \<open>Properties of the AI-generate executor\<close>

lemma find_value_layers:
  "find_value ctx [''static'', ''profile'', ''runtime''] v =
     (case ctx ''static'' of
        Some st \<Rightarrow> (case st v of Some x \<Rightarrow> x | None \<Rightarrow>
          (case ctx ''profile'' of
             Some pr \<Rightarrow> (case pr v of Some x \<Rightarrow> x | None \<Rightarrow>
               (case ctx ''runtime'' of
                  Some rt \<Rightarrow> (case rt v of Some x \<Rightarrow> x | None \<Rightarrow> JNull) | None \<Rightarrow> JNull))
           | None \<Rightarrow> (case ctx ''runtime'' of
                  Some rt \<Rightarrow> (case rt v of Some x \<Rightarrow> x | None \<Rightarrow> JNull) | None \<Rightarrow> JNull)))
      | None \<Rightarrow>
          (case ctx ''profile'' of
             Some pr \<Rightarrow> (case pr v of Some x \<Rightarrow> x | None \<Rightarrow>
               (case ctx ''runtime'' of
                  Some rt \<Rightarrow> (case rt v of Some x \<Rightarrow> x | None \<Rightarrow> JNull) | None \<Rightarrow> JNull))
           | None \<Rightarrow> (case ctx ''runtime'' of
                  Some rt \<Rightarrow> (case rt v of Some x \<Rightarrow> x | None \<Rightarrow> JNull) | None \<Rightarrow> JNull)))"
  by (simp split: option.splits)

lemma extract_variables_loop_fail:
  "v \<in> set names \<Longrightarrow> is_None (find_value ctx [''static'', ''profile'', ''runtime''] v)
     \<Longrightarrow> \<exists>name. extract_variables_loop ctx names vars = Inl (ValueError (not_found_message name))"
  by (induction names arbitrary: vars) (auto simp: Let_def)


lemma find_value_absent:
  "(\<forall>layer d. ctx layer = Some d \<longrightarrow> d v = None) \<Longrightarrow> find_value ctx sections v = JNull"
  by (induction sections) (force split: option.splits)+

lemma extract_variables_single:
  "extract_variables \<lparr>template_id = t, variables = [v], json_schema = sch\<rparr> ctx
     = (if is_None (find_value ctx [''static'', ''profile'', ''runtime''] v)
        then Inl (ValueError (not_found_message v))
        else Inr [v \<mapsto> find_value ctx [''static'', ''profile'', ''runtime''] v])"
  by (simp add: extract_variables_def Let_def)

text \<open>
  C10. Variable extraction reads the layers in the order static, profile, runtime and stops
  at the first layer whose map contains the key: that layer's value is the one found. A
  variable bound nowhere fails with the not-found \<open>ValueError\<close>; a variable whose first
  binding is null fails with the very same error, whatever the later layers bind, and so
  does the extraction of any variable list that contains it.
\<close>

theorem null_binding_shadows:
  "(ctx ''static'' = Some st \<and> st v = Some x
      \<longrightarrow> find_value ctx [''static'', ''profile'', ''runtime''] v = x)
   \<and> (ctx ''static'' = Some st \<and> st v = None \<and> ctx ''profile'' = Some pr \<and> pr v = Some x
      \<longrightarrow> find_value ctx [''static'', ''profile'', ''runtime''] v = x)
   \<and> ((\<forall>layer d. ctx layer = Some d \<longrightarrow> d v = None)
      \<longrightarrow> extract_variables \<lparr>template_id = t, variables = [v], json_schema = sch\<rparr> ctx
            = Inl (ValueError (not_found_message v)))
   \<and> (ctx ''static'' = Some st \<and> st v = Some JNull
      \<longrightarrow> extract_variables \<lparr>template_id = t, variables = [v], json_schema = sch\<rparr> ctx
            = Inl (ValueError (not_found_message v)))
   \<and> (ctx ''static'' = Some st \<and> st v = None \<and> ctx ''profile'' = Some pr
        \<and> pr v = Some JNull
      \<longrightarrow> extract_variables \<lparr>template_id = t, variables = [v], json_schema = sch\<rparr> ctx
            = Inl (ValueError (not_found_message v)))
   \<and> (v \<in> set (variables cfg)
        \<and> is_None (find_value ctx [''static'', ''profile'', ''runtime''] v)
      \<longrightarrow> (\<exists>name. extract_variables cfg ctx = Inl (ValueError (not_found_message name))))"
proof (intro conjI impI)
  show "find_value ctx [''static'', ''profile'', ''runtime''] v = x"
    if "ctx ''static'' = Some st \<and> st v = Some x"
    using that by simp
  show "find_value ctx [''static'', ''profile'', ''runtime''] v = x"
    if "ctx ''static'' = Some st \<and> st v = None \<and> ctx ''profile'' = Some pr \<and> pr v = Some x"
    using that by simp
  show "extract_variables \<lparr>template_id = t, variables = [v], json_schema = sch\<rparr> ctx
            = Inl (ValueError (not_found_message v))"
    if "\<forall>layer d. ctx layer = Some d \<longrightarrow> d v = None"
    using find_value_absent[of ctx v "[''static'', ''profile'', ''runtime'']"] that
    unfolding extract_variables_single by simp
  show "extract_variables \<lparr>template_id = t, variables = [v], json_schema = sch\<rparr> ctx
            = Inl (ValueError (not_found_message v))"
    if "ctx ''static'' = Some st \<and> st v = Some JNull"
    using that unfolding extract_variables_single by simp
  show "extract_variables \<lparr>template_id = t, variables = [v], json_schema = sch\<rparr> ctx
            = Inl (ValueError (not_found_message v))"
    if "ctx ''static'' = Some st \<and> st v = None \<and> ctx ''profile'' = Some pr
        \<and> pr v = Some JNull"
    using that unfolding extract_variables_single by simp
  show "\<exists>name. extract_variables cfg ctx = Inl (ValueError (not_found_message name))"
    if "v \<in> set (variables cfg)
        \<and> is_None (find_value ctx [''static'', ''profile'', ''runtime''] v)"
    using that extract_variables_loop_fail[of v "variables cfg" ctx Map.empty]
    by (simp add: extract_variables_def)
qed

theorem null_binding_shadows_witness:
  "extract_variables \<lparr>template_id = ''greet'', variables = [''name''], json_schema = JNull\<rparr>
     [''static'' \<mapsto> [''name'' \<mapsto> JNull], ''profile'' \<mapsto> Map.empty,
      ''runtime'' \<mapsto> [''name'' \<mapsto> JStr ''Diana'']]
     = Inl (ValueError (not_found_message ''name''))
   \<and> extract_variables \<lparr>template_id = ''greet'', variables = [''name''], json_schema = JNull\<rparr>
     [''static'' \<mapsto> Map.empty, ''profile'' \<mapsto> Map.empty, ''runtime'' \<mapsto> Map.empty]
     = Inl (ValueError (not_found_message ''name''))
   \<and> find_value [''static'' \<mapsto> [''name'' \<mapsto> JStr ''S''], ''profile'' \<mapsto> Map.empty,
      ''runtime'' \<mapsto> [''name'' \<mapsto> JStr ''R'']] [''static'', ''profile'', ''runtime''] ''name''
     = JStr ''S''"
proof -
  let ?c1 = "[''static'' \<mapsto> [''name'' \<mapsto> JNull], ''profile'' \<mapsto> Map.empty,
      ''runtime'' \<mapsto> [''name'' \<mapsto> JStr ''Diana'']] :: context"
  let ?c2 = "[''static'' \<mapsto> Map.empty, ''profile'' \<mapsto> Map.empty,
      ''runtime'' \<mapsto> Map.empty] :: context"
  let ?c3 = "[''static'' \<mapsto> [''name'' \<mapsto> JStr ''S''], ''profile'' \<mapsto> Map.empty,
      ''runtime'' \<mapsto> [''name'' \<mapsto> JStr ''R'']] :: context"
  have h1: "?c1 ''static'' = Some [''name'' \<mapsto> JNull] \<and> [''name'' \<mapsto> JNull] ''name'' = Some JNull"
    by simp
  have h2: "\<forall>layer d. ?c2 layer = Some d \<longrightarrow> d ''name'' = None"
    by (auto split: if_splits)
  have h3: "?c3 ''static'' = Some [''name'' \<mapsto> JStr ''S'']
      \<and> [''name'' \<mapsto> JStr ''S''] ''name'' = Some (JStr ''S'')"
    by simp
  have r1: "extract_variables \<lparr>template_id = ''greet'', variables = [''name''], json_schema = JNull\<rparr>
      ?c1 = Inl (ValueError (not_found_message ''name''))"
    using null_binding_shadows[of ?c1 "[''name'' \<mapsto> JNull]" "''name''" JNull Map.empty
            "''greet''" JNull] h1 by blast
  have r2: "extract_variables \<lparr>template_id = ''greet'', variables = [''name''], json_schema = JNull\<rparr>
      ?c2 = Inl (ValueError (not_found_message ''name''))"
    using null_binding_shadows[of ?c2 Map.empty "''name''" JNull Map.empty
            "''greet''" JNull] h2 by blast
  have r3: "find_value ?c3 [''static'', ''profile'', ''runtime''] ''name'' = JStr ''S''"
    using null_binding_shadows[of ?c3 "[''name'' \<mapsto> JStr ''S'']" "''name''" "JStr ''S''"] h3
    by blast
  from r1 r2 r3 show ?thesis by (intro conjI)
qed

lemma ai_generate_exhausted:
  assumes "extract_variables cfg ctx = Inr vars"
    and "attempt ext cfg vars ctx sid w0 = (Inl e1, w1)"
    and "attempt ext cfg vars ctx sid w1 = (Inl e2, w2)"
    and "attempt ext cfg vars ctx sid w2 = (Inl e3, w3)"
  shows "ai_generate_execute ext cfg ctx sid w0 = (Inr (manual_fix e3 3, ctx), w3)"
  using assms by (simp add: ai_generate_execute_def MAX_RETRIES_def eval_nat_numeral)

lemma ai_generate_success0:
  assumes "extract_variables cfg ctx = Inr vars"
    and "attempt ext cfg vars ctx sid w0 = (Inr (output, context'), w1)"
  shows "ai_generate_execute ext cfg ctx sid w0
     = (Inr ([''pause'' \<mapsto> JBool False, ''output'' \<mapsto> output, ''retry_count'' \<mapsto> JInt 0],
             context'), w1)"
  using assms by (simp add: ai_generate_execute_def MAX_RETRIES_def)

lemma ai_generate_success1:
  assumes "extract_variables cfg ctx = Inr vars"
    and "attempt ext cfg vars ctx sid w0 = (Inl e1, w1)"
    and "attempt ext cfg vars ctx sid w1 = (Inr (output, context'), w2)"
  shows "ai_generate_execute ext cfg ctx sid w0
     = (Inr ([''pause'' \<mapsto> JBool False, ''output'' \<mapsto> output, ''retry_count'' \<mapsto> JInt 1],
             context'), w2)"
  using assms by (simp add: ai_generate_execute_def MAX_RETRIES_def)

lemma ai_generate_success2:
  assumes "extract_variables cfg ctx = Inr vars"
    and "attempt ext cfg vars ctx sid w0 = (Inl e1, w1)"
    and "attempt ext cfg vars ctx sid w1 = (Inl e2, w2)"
    and "attempt ext cfg vars ctx sid w2 = (Inr (output, context'), w3)"
  shows "ai_generate_execute ext cfg ctx sid w0
     = (Inr ([''pause'' \<mapsto> JBool False, ''output'' \<mapsto> output, ''retry_count'' \<mapsto> JInt 2],
             context'), w3)"
  using assms by (simp add: ai_generate_execute_def MAX_RETRIES_def)

lemma attempt_success:
  "attempt ext cfg vars ctx sid w = (Inr (output, context'), w') \<Longrightarrow>
     \<exists>runtime. ctx ''runtime'' = Some runtime
       \<and> context' = ctx(''runtime'' \<mapsto> runtime(sid @ ''_output'' \<mapsto> output))
       \<and> generate ext w (template_id cfg) vars (json_schema cfg) = (Inr output, w')
       \<and> validate ext output (json_schema cfg) = None"
  by (auto simp: attempt_def split: prod.splits sum.splits option.splits)


section \<open>Properties of the orchestrator\<close>

lemma pause_signal_manual_fix: "pause_signal (manual_fix e n)"
  by (simp add: pause_signal_def manual_fix_def)

lemma map_commit_twice:
  "run_id b = run_id a \<Longrightarrow>
   map (\<lambda>row. if run_id row = run_id a then b else row)
       (map (\<lambda>row. if run_id row = run_id a then a else row) rows)
   = map (\<lambda>row. if run_id row = run_id a then b else row) rows"
  by (induction rows) auto

lemma loop_returns:
  "execute_workflow_loop ext smap fuel w db r = Some (Inr r', db', w') \<Longrightarrow>
     run_id r' = run_id r \<and> idempotency_key r' = idempotency_key r
     \<and> workflows db' = workflows db
     \<and> ((r' = r \<and> db' = db)
         \<or> runs db' = map (\<lambda>row. if run_id row = run_id r then r' else row) (runs db))"
proof (induction fuel arbitrary: w db r)
  case 0
  then show ?case by simp
next
  case (Suc fuel)
  show ?case
  proof (cases "current_step r")
    case None
    with Suc.prems show ?thesis by simp
  next
    case (Some cur)
    show ?thesis
    proof (cases "cur = []")
      case True
      with Some Suc.prems show ?thesis by simp
    next
      case False
      show ?thesis
      proof (cases "smap cur")
        case None
        with Some False Suc.prems show ?thesis by simp
      next
        case (Some s)
        note s = Some
        obtain res w1 where ex: "execute_step ext w r s = (res, w1)" by (cases "execute_step ext w r s")
        show ?thesis
        proof (cases res)
          case (Inl e)
          with \<open>current_step r = Some cur\<close> False s ex Suc.prems show ?thesis
            by (simp split: sum.splits prod.splits)
        next
          case (Inr rc)
          obtain result context' where rc: "rc = (result, context')" by (cases rc)
          obtain new_id w2 where u: "uuid4 ext w1 = (new_id, w2)" by (cases "uuid4 ext w1")
          let ?r2 = "r\<lparr>run_context := context', current_step := next_step s\<rparr>"
          show ?thesis
          proof (cases "pause_signal result")
            case True
            with \<open>current_step r = Some cur\<close> False s ex Inr rc u Suc.prems show ?thesis
              by (auto simp: commit_def)
          next
            case np: False
            show ?thesis
            proof (cases "nonempty (next_step s)")
              case False
              with np \<open>current_step r = Some cur\<close> \<open>cur \<noteq> []\<close> s ex Inr rc u Suc.prems
              show ?thesis
                by (auto simp: commit_def map_commit_twice o_def)
            next
              case True
              with np \<open>current_step r = Some cur\<close> \<open>cur \<noteq> []\<close> s ex Inr rc u Suc.prems
              have rec: "execute_workflow_loop ext smap fuel w2
                   (commit db ?r2 [completed_step new_id r s result]) ?r2 = Some (Inr r', db', w')"
                by simp
              from Suc.IH[OF rec]
              have a: "run_id r' = run_id r" "idempotency_key r' = idempotency_key r"
                "workflows db' = workflows db"
                and b: "(r' = ?r2 \<and> db' = commit db ?r2 [completed_step new_id r s result])
                  \<or> runs db' = map (\<lambda>row. if run_id row = run_id r then r' else row)
                        (runs (commit db ?r2 [completed_step new_id r s result]))"
                by (auto simp: commit_def)
              from b a(1) have "runs db' = map (\<lambda>row. if run_id row = run_id r then r' else row) (runs db)"
                by (auto simp: commit_def map_commit_twice[of r' "?r2", simplified])
              with a show ?thesis by simp
            qed
          qed
        qed
      qed
    qed
  qed
qed


text \<open>
  The run a returning loop hands back: it is waiting and still names the step that paused,
  a step of the workflow; or it is completed and has no current step; or the loop was
  entered with no current step and touched nothing, the status staying what it was.
\<close>

lemma loop_status_on_return:
  "execute_workflow_loop ext smap fuel w db r = Some (Inr r', db', w') \<Longrightarrow>
     (r' = r \<and> \<not> nonempty (current_step r))
     \<or> (status r' = ''waiting'' \<and> nonempty (current_step r')
         \<and> (\<exists>cur s. current_step r' = Some cur \<and> smap cur = Some s))
     \<or> (status r' = ''completed'' \<and> \<not> nonempty (current_step r'))"
proof (induction fuel arbitrary: w db r)
  case 0
  then show ?case by simp
next
  case (Suc fuel)
  show ?case
  proof (cases "current_step r")
    case None
    with Suc.prems show ?thesis by simp
  next
    case (Some cur)
    show ?thesis
    proof (cases "cur = []")
      case True
      with Some Suc.prems show ?thesis by simp
    next
      case False
      show ?thesis
      proof (cases "smap cur")
        case None
        with Some False Suc.prems show ?thesis by simp
      next
        case (Some s)
        note s = Some
        obtain res w1 where ex: "execute_step ext w r s = (res, w1)" by (cases "execute_step ext w r s")
        show ?thesis
        proof (cases res)
          case (Inl e)
          with \<open>current_step r = Some cur\<close> False s ex Suc.prems show ?thesis
            by (simp split: sum.splits prod.splits)
        next
          case (Inr rc)
          obtain result context' where rc: "rc = (result, context')" by (cases rc)
          obtain new_id w2 where u: "uuid4 ext w1 = (new_id, w2)" by (cases "uuid4 ext w1")
          let ?r2 = "r\<lparr>run_context := context', current_step := next_step s\<rparr>"
          show ?thesis
          proof (cases "pause_signal result")
            case True
            with \<open>current_step r = Some cur\<close> False s ex Inr rc u Suc.prems show ?thesis
              by auto
          next
            case np: False
            show ?thesis
            proof (cases "nonempty (next_step s)")
              case False
              with np \<open>current_step r = Some cur\<close> \<open>cur \<noteq> []\<close> s ex Inr rc u Suc.prems
              show ?thesis by auto
            next
              case True
              with np \<open>current_step r = Some cur\<close> \<open>cur \<noteq> []\<close> s ex Inr rc u Suc.prems
              have rec: "execute_workflow_loop ext smap fuel w2
                   (commit db ?r2 [completed_step new_id r s result]) ?r2 = Some (Inr r', db', w')"
                by simp
              from Suc.IH[OF rec] True show ?thesis by auto
            qed
          qed
        qed
      qed
    qed
  qed
qed

lemma scalar_one_or_none_Some: "scalar_one_or_none xs = Inr (Some x) \<longleftrightarrow> xs = [x]"
  by (cases xs rule: scalar_one_or_none.cases) auto

lemma scalar_one_or_none_None: "scalar_one_or_none xs = Inr None \<longleftrightarrow> xs = []"
  by (cases xs rule: scalar_one_or_none.cases) auto

lemma scalar_one_Inr: "scalar_one xs = Inr x \<longleftrightarrow> xs = [x]"
  by (cases xs rule: scalar_one.cases) auto

lemma start_run_existing:
  "k \<noteq> [] \<Longrightarrow> select_run_by_key db k = [r] \<Longrightarrow>
     start_run ext fuel w db wid inputs (Some k) = Some (Inr r, db, w)"
  by (simp add: start_run_def)

lemma execute_workflow_returns:
  assumes "execute_workflow ext fuel w db r = Some (Inr r', db', w')"
  shows "run_id r' = run_id r \<and> idempotency_key r' = idempotency_key r
     \<and> workflows db' = workflows db
     \<and> ((r' = r \<and> db' = db)
         \<or> runs db' = map (\<lambda>row. if run_id row = run_id r then r' else row) (runs db))"
proof (cases "scalar_one_or_none (select_workflow db (workflow_id r))")
  case (Inl e)
  with assms show ?thesis by (simp add: execute_workflow_def)
next
  case (Inr found)
  show ?thesis
  proof (cases found)
    case None
    with Inr assms show ?thesis by (simp add: execute_workflow_def)
  next
    case (Some wflow)
    with Inr assms
    have "execute_workflow_loop ext (step_map (steps wflow)) fuel w db r = Some (Inr r', db', w')"
      by (simp add: execute_workflow_def)
    then show ?thesis by (rule loop_returns)
  qed
qed

lemma map_fresh_id:
  "rid \<notin> set (map run_id rows) \<Longrightarrow>
     map (\<lambda>row. if run_id row = rid then x else row) rows = rows"
  by (induction rows) auto

lemma start_run_key_unique:
  assumes k: "k \<noteq> []"
    and first: "start_run ext fuel w db wid inputs (Some k) = Some (Inr r1, db1, w1)"
  shows "select_run_by_key db1 k = [r1]"
proof (cases "scalar_one_or_none (select_run_by_key db k)")
  case (Inl e)
  with k first show ?thesis by (simp add: start_run_def)
next
  case (Inr found)
  show ?thesis
  proof (cases found)
    case (Some existing)
    with Inr k first have "r1 = existing" "db1 = db" by (auto simp: start_run_def)
    with Inr Some show ?thesis by (simp add: scalar_one_or_none_Some)
  next
    case None
    with Inr have nokey: "select_run_by_key db k = []" by (simp add: scalar_one_or_none_None)
    obtain new_id w0 where u: "uuid4 ext w = (new_id, w0)" by (cases "uuid4 ext w")
    obtain wres where wres: "scalar_one_or_none (select_workflow db wid) = wres" by simp
    from Inr None k first wres obtain wflow where wf: "wres = Inr (Some wflow)"
      by (cases wres; cases "projr wres") (auto simp: start_run_def)
    define run0 where "run0 = \<lparr>run_id = new_id, workflow_id = wid,
                     workflow_version = version wflow,
                     status = ''running'', current_step = Some (start_step wflow),
                     run_context = [''static'' \<mapsto> Map.empty, ''profile'' \<mapsto> Map.empty,
                                    ''runtime'' \<mapsto> inputs],
                     idempotency_key = Some k\<rparr>"
    from Inr None k first wres wf u obtain dbi where ins: "insert_run db run0 = Inr dbi"
      by (cases "insert_run db run0") (auto simp: start_run_def run0_def)
    from Inr None k first wres wf u ins
    have ex: "execute_workflow ext fuel w0 dbi run0 = Some (Inr r1, db1, w1)"
      by (simp add: start_run_def run0_def)
    from ins have fresh: "new_id \<notin> set (map run_id (runs db))"
      and dbi: "dbi = db\<lparr>runs := runs db @ [run0]\<rparr>"
      by (auto simp: insert_run_def run0_def split: if_splits)
    from execute_workflow_returns[OF ex]
    have id1: "run_id r1 = new_id" and key1: "idempotency_key r1 = Some k"
      and rows: "(r1 = run0 \<and> db1 = dbi)
         \<or> runs db1 = map (\<lambda>row. if run_id row = new_id then r1 else row) (runs dbi)"
      by (simp_all add: run0_def)
    from rows have "runs db1 = runs db @ [r1]"
      using map_fresh_id[OF fresh] by (auto simp: dbi run0_def)
    with nokey key1 show ?thesis by (simp add: select_run_by_key_def)
  qed
qed

lemma filter_map_row:
  "run_id r' = i \<Longrightarrow>
     filter (\<lambda>x. run_id x = i) (map (\<lambda>x. if run_id x = i then r' else x) rows)
       = map (\<lambda>x. r') (filter (\<lambda>x. run_id x = i) rows)"
  by (induction rows) auto

lemma select_run_id: "select_run db i = [row] \<Longrightarrow> run_id row = i"
proof -
  assume "select_run db i = [row]"
  then have "row \<in> set (filter (\<lambda>r. run_id r = i) (runs db))"
    by (simp add: select_run_def)
  then show ?thesis by simp
qed

lemma select_run_commit:
  "select_run db (run_id r) = [row] \<Longrightarrow> run_id r' = run_id r \<Longrightarrow>
     select_run (commit db r' added) (run_id r) = [r']"
  by (simp add: select_run_def commit_def filter_map_row)

lemma loop_raises:
  "execute_workflow_loop ext smap fuel w db r = Some (Inl e, db', w') \<Longrightarrow>
   select_run db (run_id r) = [r] \<Longrightarrow>
     (\<exists>row. select_run db' (run_id r) = [row] \<and> status row = ''failed''
         \<and> runs db' = map (\<lambda>x. if run_id x = run_id r then row else x) (runs db)
         \<and> idempotency_key row = idempotency_key r)
     \<and> ((\<exists>cur. e = ValueError (''Step '' @ cur @ '' not found in workflow'') \<and> smap cur = None)
         \<or> (\<exists>hist rs. run_steps db' = hist @ [rs] \<and> rs_run_id rs = run_id r
               \<and> rs_status rs = ''failed'' \<and> rs_error rs = Some (str_of_error e)))"
proof (induction fuel arbitrary: w db r)
  case 0
  then show ?case by simp
next
  case (Suc fuel)
  note inv = Suc.prems(2)
  show ?case
  proof (cases "current_step r")
    case None
    with Suc.prems show ?thesis by simp
  next
    case (Some cur)
    show ?thesis
    proof (cases "cur = []")
      case True
      with Some Suc.prems show ?thesis by simp
    next
      case False
      show ?thesis
      proof (cases "smap cur")
        case None
        with Some False Suc.prems(1)
        have e: "e = ValueError (''Step '' @ cur @ '' not found in workflow'')"
          and db': "db' = commit db (r\<lparr>status := ''failed''\<rparr>) []"
          by simp_all
        have "select_run db' (run_id r) = [r\<lparr>status := ''failed''\<rparr>]"
          unfolding db' by (rule select_run_commit[OF inv]) simp
        with e None db' show ?thesis by (auto simp: commit_def)
      next
        case (Some s)
        note s = Some
        obtain res w1 where ex: "execute_step ext w r s = (res, w1)" by (cases "execute_step ext w r s")
        show ?thesis
        proof (cases res)
          case (Inl e0)
          obtain new_id w2 where u: "uuid4 ext w1 = (new_id, w2)" by (cases "uuid4 ext w1")
          from \<open>current_step r = Some cur\<close> False s ex Inl u inv Suc.prems(1)
          have e: "e = e0" and db': "db' = commit db (r\<lparr>status := ''failed''\<rparr>)
                 [failed_step new_id r s (str_of_error e0)]"
            by auto
          have "select_run db' (run_id r) = [r\<lparr>status := ''failed''\<rparr>]"
            unfolding db' by (rule select_run_commit[OF inv]) simp
          with e db' show ?thesis by (auto simp: commit_def failed_step_def)
        next
          case (Inr rc)
          obtain result context' where rc: "rc = (result, context')" by (cases rc)
          obtain new_id w2 where u: "uuid4 ext w1 = (new_id, w2)" by (cases "uuid4 ext w1")
          let ?r2 = "r\<lparr>run_context := context', current_step := next_step s\<rparr>"
          let ?db2 = "commit db ?r2 [completed_step new_id r s result]"
          from \<open>current_step r = Some cur\<close> False s ex Inr rc u Suc.prems(1)
          have np: "\<not> pause_signal result" and ne: "nonempty (next_step s)"
            and rec: "execute_workflow_loop ext smap fuel w2 ?db2 ?r2 = Some (Inl e, db', w')"
            by (auto split: if_splits)
          have inv2: "select_run ?db2 (run_id ?r2) = [?r2]"
            using select_run_commit[OF inv, of ?r2] by simp
          from Suc.IH[OF rec inv2] obtain row where
            row: "select_run db' (run_id r) = [row]" "status row = ''failed''"
              "runs db' = map (\<lambda>x. if run_id x = run_id r then row else x) (runs ?db2)"
              "idempotency_key row = idempotency_key r"
            and alt: "(\<exists>cur. e = ValueError (''Step '' @ cur @ '' not found in workflow'')
                          \<and> smap cur = None)
              \<or> (\<exists>hist rs. run_steps db' = hist @ [rs] \<and> rs_run_id rs = run_id r
                    \<and> rs_status rs = ''failed'' \<and> rs_error rs = Some (str_of_error e))"
            by auto
          from row(1) have "run_id row = run_id r"
            by (rule select_run_id)
          with row(3) have "runs db' = map (\<lambda>x. if run_id x = run_id r then row else x) (runs db)"
            using map_commit_twice[of row ?r2 "runs db"] by (simp add: commit_def)
          with row alt show ?thesis by blast
        qed
      qed
    qed
  qed
qed


lemma execute_workflow_raises:
  assumes "execute_workflow ext fuel w db r = Some (Inl e, db', w')"
    and "select_workflow db (workflow_id r) = [wflow]"
    and "select_run db (run_id r) = [r]"
  shows "(\<exists>row. select_run db' (run_id r) = [row] \<and> status row = ''failed''
         \<and> runs db' = map (\<lambda>x. if run_id x = run_id r then row else x) (runs db)
         \<and> idempotency_key row = idempotency_key r)
     \<and> ((\<exists>cur. e = ValueError (''Step '' @ cur @ '' not found in workflow'')
               \<and> step_map (steps wflow) cur = None)
         \<or> (\<exists>hist rs. run_steps db' = hist @ [rs] \<and> rs_run_id rs = run_id r
               \<and> rs_status rs = ''failed'' \<and> rs_error rs = Some (str_of_error e)))"
proof -
  from assms(1,2)
  have "execute_workflow_loop ext (step_map (steps wflow)) fuel w db r = Some (Inl e, db', w')"
    by (simp add: execute_workflow_def)
  from loop_raises[OF this assms(3)] show ?thesis .
qed

lemma start_run_raises:
  assumes first: "start_run ext fuel w db wid inputs key_opt = Some (Inl e, db', w')"
    and changed: "runs db' \<noteq> runs db"
  shows "\<exists>row wflow. select_workflow db wid = [wflow]
           \<and> runs db' = runs db @ [row] \<and> status row = ''failed''
           \<and> idempotency_key row = key_opt
           \<and> run_id row \<notin> set (map run_id (runs db))
           \<and> (\<forall>k. key_opt = Some k \<and> k \<noteq> [] \<longrightarrow> select_run_by_key db k = [])
           \<and> ((\<exists>cur. e = ValueError (''Step '' @ cur @ '' not found in workflow'')
                     \<and> step_map (steps wflow) cur = None)
               \<or> (\<exists>hist rs. run_steps db' = hist @ [rs] \<and> rs_run_id rs = run_id row
                     \<and> rs_status rs = ''failed'' \<and> rs_error rs = Some (str_of_error e)))"
proof -
  define lookup where "lookup = (case key_opt of
              None \<Rightarrow> Inr None
            | Some k \<Rightarrow> if k \<noteq> [] then scalar_one_or_none (select_run_by_key db k)
                        else Inr None)"
  from first changed have l: "lookup = Inr None"
    unfolding lookup_def
    by (cases lookup; cases "projr lookup")
       (auto simp: start_run_def lookup_def split: sum.splits option.splits if_splits)
  obtain wres where wres: "scalar_one_or_none (select_workflow db wid) = wres" by simp
  from first changed l wres obtain wflow where wf: "wres = Inr (Some wflow)"
    unfolding lookup_def
    by (cases wres; cases "projr wres") (auto simp: start_run_def split: sum.splits option.splits)
  with wres have sw: "select_workflow db wid = [wflow]" by (simp add: scalar_one_or_none_Some)
  obtain new_id w0 where u: "uuid4 ext w = (new_id, w0)" by (cases "uuid4 ext w")
  define run0 where "run0 = \<lparr>run_id = new_id, workflow_id = wid,
                     workflow_version = version wflow,
                     status = ''running'', current_step = Some (start_step wflow),
                     run_context = [''static'' \<mapsto> Map.empty, ''profile'' \<mapsto> Map.empty,
                                    ''runtime'' \<mapsto> inputs],
                     idempotency_key = key_opt\<rparr>"
  from first changed l wres wf u obtain dbi where ins: "insert_run db run0 = Inr dbi"
    unfolding lookup_def
    by (cases "insert_run db run0") (auto simp: start_run_def run0_def)
  from first l wres wf u ins
  have ex: "execute_workflow ext fuel w0 dbi run0 = Some (Inl e, db', w')"
    unfolding lookup_def by (simp add: start_run_def run0_def)
  from ins have fresh: "new_id \<notin> set (map run_id (runs db))"
    and dbi: "dbi = db\<lparr>runs := runs db @ [run0]\<rparr>"
    by (auto simp: insert_run_def run0_def split: if_splits)
  from fresh have "filter (\<lambda>x. run_id x = new_id) (runs db) = []"
    by (induction "runs db") (auto simp: filter_empty_conv)
  then have inv: "select_run dbi (run_id run0) = [run0]"
    by (simp add: select_run_def dbi run0_def)
  have swi: "select_workflow dbi (workflow_id run0) = [wflow]"
    using sw by (simp add: select_workflow_def dbi run0_def)
  from execute_workflow_raises[OF ex swi inv] obtain row where
    row: "status row = ''failed''"
      "runs db' = map (\<lambda>x. if run_id x = run_id run0 then row else x) (runs dbi)"
      "idempotency_key row = idempotency_key run0" "select_run db' (run_id run0) = [row]"
    and alt: "(\<exists>cur. e = ValueError (''Step '' @ cur @ '' not found in workflow'')
               \<and> step_map (steps wflow) cur = None)
         \<or> (\<exists>hist rs. run_steps db' = hist @ [rs] \<and> rs_run_id rs = run_id run0
               \<and> rs_status rs = ''failed'' \<and> rs_error rs = Some (str_of_error e))"
    by auto
  from row(2) have rows: "runs db' = runs db @ [row]"
    using map_fresh_id[OF fresh] by (simp add: dbi run0_def)
  from select_run_id[OF row(4)] have id: "run_id row = new_id"
    by (simp add: run0_def)
  from alt id have alt': "(\<exists>cur. e = ValueError (''Step '' @ cur @ '' not found in workflow'')
               \<and> step_map (steps wflow) cur = None)
         \<or> (\<exists>hist rs. run_steps db' = hist @ [rs] \<and> rs_run_id rs = run_id row
               \<and> rs_status rs = ''failed'' \<and> rs_error rs = Some (str_of_error e))"
    by (simp add: run0_def)
  from row(3) have key: "idempotency_key row = key_opt" by (simp add: run0_def)
  from fresh id have nid: "run_id row \<notin> set (map run_id (runs db))" by simp
  from l have nokey: "\<forall>k. key_opt = Some k \<and> k \<noteq> [] \<longrightarrow> select_run_by_key db k = []"
    by (auto simp: lookup_def scalar_one_or_none_None)
  from sw rows row(1) key alt' nid nokey show ?thesis by blast
qed


lemma merge_inputs_ids:
  "merge_inputs r inputs = Inr r1 \<Longrightarrow>
     run_id r1 = run_id r \<and> workflow_id r1 = workflow_id r"
  by (auto simp: merge_inputs_def split: option.splits)

lemma record_approval_ids:
  "record_approval r cur s inputs = Inr r1 \<Longrightarrow>
     run_id r1 = run_id r \<and> workflow_id r1 = workflow_id r"
  by (auto simp: record_approval_def split: option.splits json.splits)

lemma resume_inputs_ids:
  assumes "resume_inputs db r inputs_opt = Inr r1"
  shows "run_id r1 = run_id r \<and> workflow_id r1 = workflow_id r"
  using assms
  by (auto simp: resume_inputs_def split: option.splits sum.splits if_splits
           dest!: merge_inputs_ids record_approval_ids)

lemma resume_run_raises:
  assumes res: "resume_run ext fuel w db rid inputs_opt = Some (Inl e, db', w')"
    and changed: "db' \<noteq> db"
    and sel: "select_run db rid = [r]"
    and sw: "select_workflow db (workflow_id r) = [wflow]"
  shows "\<exists>row. select_run db' rid = [row] \<and> status row = ''failed''
           \<and> runs db' = map (\<lambda>x. if run_id x = rid then row else x) (runs db)
           \<and> ((\<exists>cur. e = ValueError (''Step '' @ cur @ '' not found in workflow'')
                     \<and> step_map (steps wflow) cur = None)
               \<or> (\<exists>hist rs. run_steps db' = hist @ [rs] \<and> rs_run_id rs = rid
                     \<and> rs_status rs = ''failed'' \<and> rs_error rs = Some (str_of_error e)))"
proof -
  from sel have rid: "run_id r = rid" by (rule select_run_id)
  from sel have found: "scalar_one_or_none (select_run db rid) = Inr (Some r)" by simp
  from res changed found have waiting: "status r = ''waiting''"
    by (auto simp: resume_run_def split: if_splits)
  from res changed found waiting obtain r1 where ri: "resume_inputs db r inputs_opt = Inr r1"
    by (cases "resume_inputs db r inputs_opt") (auto simp: resume_run_def)
  from resume_inputs_ids[OF ri] rid
  have ids: "run_id r1 = rid" "workflow_id r1 = workflow_id r" by simp_all
  let ?r = "r1\<lparr>status := ''running''\<rparr>"
  let ?db = "commit db ?r []"
  have inv: "select_run ?db (run_id ?r) = [?r]"
    using select_run_commit[of db r r ?r "[]"] sel rid ids by simp
  have swi: "select_workflow ?db (workflow_id ?r) = [wflow]"
    using sw ids by (simp add: select_workflow_def commit_def)
  from res found waiting ri obtain out where ew: "execute_workflow ext fuel w ?db ?r = Some out"
    by (cases "execute_workflow ext fuel w ?db ?r") (auto simp: resume_run_def)
  obtain ores db2 w2 where out: "out = (ores, db2, w2)" by (cases out)
  show ?thesis
  proof (cases ores)
    case (Inl e2)
    with res found waiting ri ew out have eq: "e2 = e" "db2 = db'" "w2 = w'"
      by (simp_all add: resume_run_def)
    with ew out Inl have "execute_workflow ext fuel w ?db ?r = Some (Inl e, db', w')" by simp
    from execute_workflow_raises[OF this swi inv] ids obtain row where
      row: "select_run db' rid = [row]" "status row = ''failed''"
        "runs db' = map (\<lambda>x. if run_id x = rid then row else x) (runs ?db)"
      and alt: "(\<exists>cur. e = ValueError (''Step '' @ cur @ '' not found in workflow'')
                     \<and> step_map (steps wflow) cur = None)
               \<or> (\<exists>hist rs. run_steps db' = hist @ [rs] \<and> rs_run_id rs = rid
                     \<and> rs_status rs = ''failed'' \<and> rs_error rs = Some (str_of_error e))"
      by auto
    from select_run_id[OF row(1)] have "run_id row = rid" .
    with row(3) ids have "runs db' = map (\<lambda>x. if run_id x = rid then row else x) (runs db)"
      using map_commit_twice[of row ?r "runs db"] by (simp add: commit_def)
    with row alt show ?thesis by blast
  next
    case (Inr r2)
    with ew out have ew2: "execute_workflow ext fuel w ?db ?r = Some (Inr r2, db2, w2)" by simp
    from execute_workflow_returns[OF ew2]
    have id2: "run_id r2 = run_id ?r"
      and rows: "(r2 = ?r \<and> db2 = ?db)
         \<or> runs db2 = map (\<lambda>row. if run_id row = run_id ?r then r2 else row) (runs ?db)"
      by simp_all
    have "select_run db2 (run_id r2) = [r2]"
    proof -
      from rows show ?thesis
      proof
        assume "r2 = ?r \<and> db2 = ?db"
        with inv show ?thesis by simp
      next
        assume a: "runs db2 = map (\<lambda>row. if run_id row = run_id ?r then r2 else row) (runs ?db)"
        have "select_run db2 (run_id ?r) = map (\<lambda>x. r2) (select_run ?db (run_id ?r))"
          unfolding select_run_def a using id2 by (rule filter_map_row)
        with inv id2 show ?thesis by simp
      qed
    qed
    with res found waiting ri ew out Inr show ?thesis
      by (simp add: resume_run_def)
  qed
qed

text \<open>
  C1. Whenever the executor of the current step raises during an iteration of the advance
  loop, the loop ends there: the working copy of the run is dropped (rollback) and the run
  is taken again from the committed database, one history record with status \<open>failed\<close>
  and the exception's message as its error is appended, the run's row gets the status
  \<open>failed\<close>, both are committed, and the same exception is raised again. So a StartRun
  that fails after it created its run, and a ResumeRun that fails after it changed the
  database (its workflow being there), leave the run persisted with status \<open>failed\<close>,
  and the last history record is the failed one with the exception's message; the one
  failure of the loop that is not an executor's, a current step that names no step of the
  workflow, persists the failed status without a history record.
\<close>

theorem executor_failure_recorded:
  "(current_step r = Some cur \<and> cur \<noteq> [] \<and> smap cur = Some s
      \<and> execute_step ext w r s = (Inl e, w1)
      \<and> select_run db (run_id r) = [r0] \<and> uuid4 ext w1 = (new_id, w2)
    \<longrightarrow> execute_workflow_loop ext smap (Suc fuel) w db r =
           Some (Inl e,
                 db\<lparr>runs := map (\<lambda>row. if run_id row = run_id r then r0\<lparr>status := ''failed''\<rparr>
                                       else row) (runs db),
                    run_steps := run_steps db @
                      [\<lparr>rs_id = new_id, rs_run_id = run_id r, rs_step_id = step_id s,
                        rs_type = stype s, rs_status = ''failed'', rs_output = None,
                        rs_error = Some (str_of_error e)\<rparr>]\<rparr>,
                 w2))
   \<and> (start_run ext fuel w db wid inputs key_opt = Some (Inl e, db', w')
        \<and> runs db' \<noteq> runs db
    \<longrightarrow> (\<exists>row wflow. select_workflow db wid = [wflow]
           \<and> runs db' = runs db @ [row] \<and> status row = ''failed''
           \<and> ((\<exists>cur. e = ValueError (''Step '' @ cur @ '' not found in workflow'')
                     \<and> step_map (steps wflow) cur = None)
               \<or> (\<exists>hist rs. run_steps db' = hist @ [rs] \<and> rs_run_id rs = run_id row
                     \<and> rs_status rs = ''failed'' \<and> rs_error rs = Some (str_of_error e)))))
   \<and> (resume_run ext fuel w db rid inputs_opt = Some (Inl e, db', w') \<and> db' \<noteq> db
        \<and> select_run db rid = [r] \<and> select_workflow db (workflow_id r) = [wflow]
    \<longrightarrow> (\<exists>row. select_run db' rid = [row] \<and> status row = ''failed''
           \<and> runs db' = map (\<lambda>x. if run_id x = rid then row else x) (runs db)
           \<and> ((\<exists>cur. e = ValueError (''Step '' @ cur @ '' not found in workflow'')
                     \<and> step_map (steps wflow) cur = None)
               \<or> (\<exists>hist rs. run_steps db' = hist @ [rs] \<and> rs_run_id rs = rid
                     \<and> rs_status rs = ''failed'' \<and> rs_error rs = Some (str_of_error e)))))"
proof (intro conjI impI)
  assume a: "current_step r = Some cur \<and> cur \<noteq> [] \<and> smap cur = Some s
      \<and> execute_step ext w r s = (Inl e, w1)
      \<and> select_run db (run_id r) = [r0] \<and> uuid4 ext w1 = (new_id, w2)"
  then have "run_id r0 = run_id r" by (auto dest: select_run_id)
  with a show "execute_workflow_loop ext smap (Suc fuel) w db r =
           Some (Inl e,
                 db\<lparr>runs := map (\<lambda>row. if run_id row = run_id r then r0\<lparr>status := ''failed''\<rparr>
                                       else row) (runs db),
                    run_steps := run_steps db @
                      [\<lparr>rs_id = new_id, rs_run_id = run_id r, rs_step_id = step_id s,
                        rs_type = stype s, rs_status = ''failed'', rs_output = None,
                        rs_error = Some (str_of_error e)\<rparr>]\<rparr>,
                 w2)"
    by (simp add: commit_def failed_step_def)
next
  assume "start_run ext fuel w db wid inputs key_opt = Some (Inl e, db', w')
        \<and> runs db' \<noteq> runs db"
  then have "start_run ext fuel w db wid inputs key_opt = Some (Inl e, db', w')"
    and "runs db' \<noteq> runs db" by simp_all
  from start_run_raises[OF this]
  show "\<exists>row wflow. select_workflow db wid = [wflow]
           \<and> runs db' = runs db @ [row] \<and> status row = ''failed''
           \<and> ((\<exists>cur. e = ValueError (''Step '' @ cur @ '' not found in workflow'')
                     \<and> step_map (steps wflow) cur = None)
               \<or> (\<exists>hist rs. run_steps db' = hist @ [rs] \<and> rs_run_id rs = run_id row
                     \<and> rs_status rs = ''failed'' \<and> rs_error rs = Some (str_of_error e)))"
    by blast
next
  assume "resume_run ext fuel w db rid inputs_opt = Some (Inl e, db', w') \<and> db' \<noteq> db
        \<and> select_run db rid = [r] \<and> select_workflow db (workflow_id r) = [wflow]"
  then have "resume_run ext fuel w db rid inputs_opt = Some (Inl e, db', w')" "db' \<noteq> db"
    "select_run db rid = [r]" "select_workflow db (workflow_id r) = [wflow]" by simp_all
  from resume_run_raises[OF this]
  show "\<exists>row. select_run db' rid = [row] \<and> status row = ''failed''
           \<and> runs db' = map (\<lambda>x. if run_id x = rid then row else x) (runs db)
           \<and> ((\<exists>cur. e = ValueError (''Step '' @ cur @ '' not found in workflow'')
                     \<and> step_map (steps wflow) cur = None)
               \<or> (\<exists>hist rs. run_steps db' = hist @ [rs] \<and> rs_run_id rs = rid
                     \<and> rs_status rs = ''failed'' \<and> rs_error rs = Some (str_of_error e)))" .
qed

text \<open>
  C2 (as amended). After a StartRun carrying a non-empty idempotency key has returned a run,
  every further StartRun with the same workflow id and key, whatever its inputs, returns
  that very run (same id, same context, so nothing of the second caller's inputs), leaves
  the database as it is (no new run, no history record) and leaves the world as it is (no
  step runs, no provider call, no identifier drawn). When the first call created its run
  and then raised, the second call returns that failed run in the same way.
\<close>

theorem start_run_idempotent:
  "(k \<noteq> [] \<and> start_run ext fuel w db wid inputs (Some k) = Some (Inr r1, db1, w1)
      \<longrightarrow> start_run ext fuel' w' db1 wid inputs' (Some k) = Some (Inr r1, db1, w'))
   \<and> (k \<noteq> [] \<and> start_run ext fuel w db wid inputs (Some k) = Some (Inl e, db1, w1)
        \<and> runs db1 \<noteq> runs db
      \<longrightarrow> (\<exists>row. runs db1 = runs db @ [row] \<and> status row = ''failed''
             \<and> start_run ext fuel' w' db1 wid inputs' (Some k) = Some (Inr row, db1, w')))"
proof (intro conjI impI)
  assume "k \<noteq> [] \<and> start_run ext fuel w db wid inputs (Some k) = Some (Inr r1, db1, w1)"
  then have k: "k \<noteq> []"
    and first: "start_run ext fuel w db wid inputs (Some k) = Some (Inr r1, db1, w1)"
    by simp_all
  from k start_run_key_unique[OF k first]
  show "start_run ext fuel' w' db1 wid inputs' (Some k) = Some (Inr r1, db1, w')"
    by (rule start_run_existing)
next
  assume "k \<noteq> [] \<and> start_run ext fuel w db wid inputs (Some k) = Some (Inl e, db1, w1)
        \<and> runs db1 \<noteq> runs db"
  then have k: "k \<noteq> []"
    and first: "start_run ext fuel w db wid inputs (Some k) = Some (Inl e, db1, w1)"
    and changed: "runs db1 \<noteq> runs db"
    by simp_all
  from start_run_raises[OF first changed] k obtain row where
    row: "runs db1 = runs db @ [row]" "status row = ''failed''" "idempotency_key row = Some k"
      "select_run_by_key db k = []"
    by blast
  then have "select_run_by_key db1 k = [row]" by (simp add: select_run_by_key_def)
  from start_run_existing[OF k this, of ext fuel' w' wid inputs'] row(1,2)
  show "\<exists>row. runs db1 = runs db @ [row] \<and> status row = ''failed''
             \<and> start_run ext fuel' w' db1 wid inputs' (Some k) = Some (Inr row, db1, w')"
    by blast
qed

text \<open>
  C9 (as amended). For a non-empty key the idempotency lookup matches on the key alone and
  comes before the workflow lookup: when exactly one run carries the key, StartRun returns
  it for any workflow id, also one that names no workflow or differs from the run's, and
  nothing is written. The not-found error of a missing workflow is raised when no run
  carries the key.
\<close>

theorem idempotency_lookup_before_workflow:
  "(k \<noteq> [] \<and> select_run_by_key db k = [r]
      \<longrightarrow> start_run ext fuel w db wid inputs (Some k) = Some (Inr r, db, w))
   \<and> (select_run_by_key db k = [] \<and> select_workflow db wid = []
      \<longrightarrow> start_run ext fuel w db wid inputs (Some k)
            = Some (Inl (ValueError (''Workflow '' @ wid @ '' not found'')), db, w))"
  by (simp add: start_run_existing) (simp add: start_run_def)

theorem idempotency_lookup_before_workflow_witness:
  "start_run (example_ext ''success'') 1 (0, 0) \<lparr>workflows = [], runs = [example_run], run_steps = []\<rparr>
      ''ghost'' [''different'' \<mapsto> JStr ''data''] (Some ''k'')
     = Some (Inr example_run, \<lparr>workflows = [], runs = [example_run], run_steps = []\<rparr>, (0, 0))
   \<and> start_run (example_ext ''success'') 1 (0, 0) \<lparr>workflows = [], runs = [example_run], run_steps = []\<rparr>
      ''ghost'' [''different'' \<mapsto> JStr ''data''] (Some ''other'')
     = Some (Inl (ValueError (''Workflow '' @ ''ghost'' @ '' not found'')),
             \<lparr>workflows = [], runs = [example_run], run_steps = []\<rparr>, (0, 0))"
proof -
  let ?db = "\<lparr>workflows = [], runs = [example_run], run_steps = []\<rparr>"
  have a: "''k'' \<noteq> [] \<and> select_run_by_key ?db ''k'' = [example_run]"
    by (simp add: select_run_by_key_def example_run_def)
  have b: "select_run_by_key ?db ''other'' = [] \<and> select_workflow ?db ''ghost'' = []"
    by (simp add: select_run_by_key_def select_workflow_def example_run_def)
  from idempotency_lookup_before_workflow[of "''k''" ?db example_run "example_ext ''success''" 1 "(0, 0)" "''ghost''"
         "[''different'' \<mapsto> JStr ''data'']"] a
    idempotency_lookup_before_workflow[of "''other''" ?db example_run "example_ext ''success''" 1 "(0, 0)" "''ghost''"
         "[''different'' \<mapsto> JStr ''data'']"] b
  show ?thesis by blast
qed


section \<open>Worked examples and the retry policy\<close>

lemmas example_defs =
  start_run_def execute_workflow_def example_db_def form_step_def no_config_def
  example_ext_def select_run_by_key_def select_workflow_def insert_run_def step_map_def
  execute_step_def form_execute_def pause_signal_def commit_def completed_step_def
  field_dump_def select_run_def approval_step_def conditional_step_def ai_step_def
  ai_config_def approval_execute_def conditional_execute_def ai_generate_execute_def
  extract_variables_def attempt_def mock_generate_def required_validate_def
  name_interpreter_def manual_fix_def MAX_RETRIES_def validate_expression_def strip_def
  isspace_def MAX_EXPRESSION_LENGTH_def merge_context_namespaces_def failed_step_def
  quoted_def is_letter_or_underscore_def resume_run_def resume_inputs_def merge_inputs_def
  record_approval_def validate_fields_def example_context_def running_run_def running_db_def
  started_run_def form_runtime_def approval_runtime_def started_db_def form_pause_def
  approval_pause_def decided_runtime_def
  name_error_def failed_run_def failed_record_def failed_db_def pipeline_def pipeline_db_def
  pipeline_failed_db_def

lemma attempt_world:
  "snd (attempt ext cfg vars ctx sid w)
     = snd (generate ext w (template_id cfg) vars (json_schema cfg))"
  by (simp add: attempt_def split: prod.splits sum.splits option.splits)

text \<open>
  C3. \<open>MAX_RETRIES\<close> is 2 and each pass through the \<open>try\<close> block calls the
  provider once. When three passes in a row fail (schema validation, timeout or any other
  exception), \<open>execute\<close> has made exactly these three provider calls and returns the
  manual-fix pause with the last error and \<open>retry_count = 3\<close>, the context untouched;
  in the advance loop this pause leaves the run in status \<open>waiting\<close>, with a completed
  history record, not failed. When the first, second or third pass succeeds, \<open>execute\<close>
  returns \<open>pause: false\<close> with the output and \<open>retry_count\<close> 0, 1 or 2, and the
  output is stored in the runtime layer under \<open><step_id>_output\<close>.
\<close>

theorem ai_generate_retry_policy:
  "MAX_RETRIES = 2
   \<and> snd (attempt ext cfg vars ctx sid w0)
       = snd (generate ext w0 (template_id cfg) vars (json_schema cfg))
   \<and> (extract_variables cfg ctx = Inr vars
        \<and> attempt ext cfg vars ctx sid w0 = (Inl e1, w1)
        \<and> attempt ext cfg vars ctx sid w1 = (Inl e2, w2)
        \<and> attempt ext cfg vars ctx sid w2 = (Inl e3, w3)
      \<longrightarrow> ai_generate_execute ext cfg ctx sid w0
            = (Inr ([''pause'' \<mapsto> JBool True, ''waiting_for'' \<mapsto> JStr ''manual_fix'',
                     ''error'' \<mapsto> JStr e3, ''retry_count'' \<mapsto> JInt 3], ctx), w3))
   \<and> (extract_variables cfg ctx = Inr vars
        \<and> attempt ext cfg vars ctx sid w0 = (Inr (out, ctx'), w1)
      \<longrightarrow> ai_generate_execute ext cfg ctx sid w0
            = (Inr ([''pause'' \<mapsto> JBool False, ''output'' \<mapsto> out,
                     ''retry_count'' \<mapsto> JInt 0], ctx'), w1)
          \<and> (\<exists>runtime. ctx ''runtime'' = Some runtime
                \<and> ctx' = ctx(''runtime'' \<mapsto> runtime(sid @ ''_output'' \<mapsto> out))))
   \<and> (extract_variables cfg ctx = Inr vars
        \<and> attempt ext cfg vars ctx sid w0 = (Inl e1, w1)
        \<and> attempt ext cfg vars ctx sid w1 = (Inr (out, ctx'), w2)
      \<longrightarrow> ai_generate_execute ext cfg ctx sid w0
            = (Inr ([''pause'' \<mapsto> JBool False, ''output'' \<mapsto> out,
                     ''retry_count'' \<mapsto> JInt 1], ctx'), w2)
          \<and> (\<exists>runtime. ctx ''runtime'' = Some runtime
                \<and> ctx' = ctx(''runtime'' \<mapsto> runtime(sid @ ''_output'' \<mapsto> out))))
   \<and> (extract_variables cfg ctx = Inr vars
        \<and> attempt ext cfg vars ctx sid w0 = (Inl e1, w1)
        \<and> attempt ext cfg vars ctx sid w1 = (Inl e2, w2)
        \<and> attempt ext cfg vars ctx sid w2 = (Inr (out, ctx'), w3)
      \<longrightarrow> ai_generate_execute ext cfg ctx sid w0
            = (Inr ([''pause'' \<mapsto> JBool False, ''output'' \<mapsto> out,
                     ''retry_count'' \<mapsto> JInt 2], ctx'), w3)
          \<and> (\<exists>runtime. ctx ''runtime'' = Some runtime
                \<and> ctx' = ctx(''runtime'' \<mapsto> runtime(sid @ ''_output'' \<mapsto> out))))
   \<and> (current_step r = Some cur \<and> cur \<noteq> [] \<and> smap cur = Some s
        \<and> stype s = ''ai_generate'' \<and> cfg_ai_generate (config s) = Some cfg
        \<and> extract_variables cfg (run_context r) = Inr vars
        \<and> attempt ext cfg vars (run_context r) (step_id s) (new_provider ext w) = (Inl e1, w1)
        \<and> attempt ext cfg vars (run_context r) (step_id s) w1 = (Inl e2, w2)
        \<and> attempt ext cfg vars (run_context r) (step_id s) w2 = (Inl e3, w3)
        \<and> uuid4 ext w3 = (new_id, w4)
      \<longrightarrow> execute_workflow_loop ext smap (Suc fuel) w db r
            = Some (Inr (r\<lparr>status := ''waiting''\<rparr>),
                    commit db (r\<lparr>status := ''waiting''\<rparr>)
                      [completed_step new_id r s (manual_fix e3 3)],
                    w4))"
proof (intro conjI impI)
  show "MAX_RETRIES = 2" by (simp add: MAX_RETRIES_def)
  show "snd (attempt ext cfg vars ctx sid w0)
       = snd (generate ext w0 (template_id cfg) vars (json_schema cfg))"
    by (rule attempt_world)
  show "ai_generate_execute ext cfg ctx sid w0
            = (Inr ([''pause'' \<mapsto> JBool True, ''waiting_for'' \<mapsto> JStr ''manual_fix'',
                     ''error'' \<mapsto> JStr e3, ''retry_count'' \<mapsto> JInt 3], ctx), w3)"
    if "extract_variables cfg ctx = Inr vars
        \<and> attempt ext cfg vars ctx sid w0 = (Inl e1, w1)
        \<and> attempt ext cfg vars ctx sid w1 = (Inl e2, w2)
        \<and> attempt ext cfg vars ctx sid w2 = (Inl e3, w3)"
    using that ai_generate_exhausted[of cfg ctx vars ext sid w0 e1 w1 e2 w2 e3 w3]
    by (simp add: manual_fix_def)
  show "ai_generate_execute ext cfg ctx sid w0
            = (Inr ([''pause'' \<mapsto> JBool False, ''output'' \<mapsto> out,
                     ''retry_count'' \<mapsto> JInt 0], ctx'), w1)"
    if "extract_variables cfg ctx = Inr vars
        \<and> attempt ext cfg vars ctx sid w0 = (Inr (out, ctx'), w1)"
    using that by (simp add: ai_generate_success0)
  show "\<exists>runtime. ctx ''runtime'' = Some runtime
                \<and> ctx' = ctx(''runtime'' \<mapsto> runtime(sid @ ''_output'' \<mapsto> out))"
    if "extract_variables cfg ctx = Inr vars
        \<and> attempt ext cfg vars ctx sid w0 = (Inr (out, ctx'), w1)"
    using that attempt_success[of ext cfg vars ctx sid w0 out ctx' w1] by blast
  show "ai_generate_execute ext cfg ctx sid w0
            = (Inr ([''pause'' \<mapsto> JBool False, ''output'' \<mapsto> out,
                     ''retry_count'' \<mapsto> JInt 1], ctx'), w2)"
    if "extract_variables cfg ctx = Inr vars
        \<and> attempt ext cfg vars ctx sid w0 = (Inl e1, w1)
        \<and> attempt ext cfg vars ctx sid w1 = (Inr (out, ctx'), w2)"
    using that ai_generate_success1[of cfg ctx vars ext sid w0 e1 w1 out ctx' w2] by simp
  show "\<exists>runtime. ctx ''runtime'' = Some runtime
                \<and> ctx' = ctx(''runtime'' \<mapsto> runtime(sid @ ''_output'' \<mapsto> out))"
    if "extract_variables cfg ctx = Inr vars
        \<and> attempt ext cfg vars ctx sid w0 = (Inl e1, w1)
        \<and> attempt ext cfg vars ctx sid w1 = (Inr (out, ctx'), w2)"
    using that attempt_success[of ext cfg vars ctx sid w1 out ctx' w2] by blast
  show "ai_generate_execute ext cfg ctx sid w0
            = (Inr ([''pause'' \<mapsto> JBool False, ''output'' \<mapsto> out,
                     ''retry_count'' \<mapsto> JInt 2], ctx'), w3)"
    if "extract_variables cfg ctx = Inr vars
        \<and> attempt ext cfg vars ctx sid w0 = (Inl e1, w1)
        \<and> attempt ext cfg vars ctx sid w1 = (Inl e2, w2)
        \<and> attempt ext cfg vars ctx sid w2 = (Inr (out, ctx'), w3)"
    using that ai_generate_success2[of cfg ctx vars ext sid w0 e1 w1 e2 w2 out ctx' w3]
    by simp
  show "\<exists>runtime. ctx ''runtime'' = Some runtime
                \<and> ctx' = ctx(''runtime'' \<mapsto> runtime(sid @ ''_output'' \<mapsto> out))"
    if "extract_variables cfg ctx = Inr vars
        \<and> attempt ext cfg vars ctx sid w0 = (Inl e1, w1)
        \<and> attempt ext cfg vars ctx sid w1 = (Inl e2, w2)
        \<and> attempt ext cfg vars ctx sid w2 = (Inr (out, ctx'), w3)"
    using that attempt_success[of ext cfg vars ctx sid w2 out ctx' w3] by blast
  show "execute_workflow_loop ext smap (Suc fuel) w db r
            = Some (Inr (r\<lparr>status := ''waiting''\<rparr>),
                    commit db (r\<lparr>status := ''waiting''\<rparr>)
                      [completed_step new_id r s (manual_fix e3 3)],
                    w4)"
    if h: "current_step r = Some cur \<and> cur \<noteq> [] \<and> smap cur = Some s
        \<and> stype s = ''ai_generate'' \<and> cfg_ai_generate (config s) = Some cfg
        \<and> extract_variables cfg (run_context r) = Inr vars
        \<and> attempt ext cfg vars (run_context r) (step_id s) (new_provider ext w) = (Inl e1, w1)
        \<and> attempt ext cfg vars (run_context r) (step_id s) w1 = (Inl e2, w2)
        \<and> attempt ext cfg vars (run_context r) (step_id s) w2 = (Inl e3, w3)
        \<and> uuid4 ext w3 = (new_id, w4)"
  proof -
    from h have "ai_generate_execute ext cfg (run_context r) (step_id s) (new_provider ext w)
       = (Inr (manual_fix e3 3, run_context r), w3)"
      using ai_generate_exhausted[of cfg "run_context r" vars ext "step_id s"
              "new_provider ext w" e1 w1 e2 w2 e3 w3] by simp
    with h have "execute_step ext w r s = (Inr (manual_fix e3 3, run_context r), w3)"
      by (simp add: execute_step_def)
    with h show ?thesis by (simp add: pause_signal_manual_fix)
  qed
qed

text \<open>
  C4 fails on the code. A workflow with one form step: StartRun pauses at the form with
  status \<open>waiting\<close>; ResumeRun with valid inputs moves \<open>current_step\<close> to the
  step's empty \<open>next\<close>, sets the status to \<open>running\<close> and commits; the loop is not
  entered, so the run stays \<open>running\<close> with no current step, for any fuel.
\<close>

theorem resume_terminal_step_stays_running:
  "start_run (example_ext ''success'') 1 (0, 0) (example_db form_step) ''wf1''
      [''initial'' \<mapsto> JStr ''data''] None
    = Some (Inr (started_run ''form'' form_runtime None),
            started_db form_step (started_run ''form'' form_runtime None) form_pause, (0, 2))
   \<and> resume_run (example_ext ''success'') (Suc fuel) (0, 2)
        (started_db form_step (started_run ''form'' form_runtime None) form_pause)
        ''u'' (Some [''name'' \<mapsto> JStr ''Diana''])
    = Some (Inr ((started_run ''form'' (form_runtime(''name'' \<mapsto> JStr ''Diana'')) None)
                   \<lparr>status := ''running'', current_step := None\<rparr>),
            started_db form_step
              ((started_run ''form'' (form_runtime(''name'' \<mapsto> JStr ''Diana'')) None)
                   \<lparr>status := ''running'', current_step := None\<rparr>) form_pause,
            (0, 2))"
  by (simp add: example_defs)

theorem executor_failure_recorded_witness:
  "execute_workflow_loop (example_ext ''success'') (step_map [conditional_step]) 1 (0, 1)
      (running_db conditional_step) ((running_run ''cond'')\<lparr>status := ''unsaved''\<rparr>)
    = Some (Inl name_error,
            (running_db conditional_step)
              \<lparr>runs := [(running_run ''cond'')\<lparr>status := ''failed''\<rparr>],
               run_steps := [failed_record ''uu'']\<rparr>,
            (0, 2))
   \<and> start_run (example_ext ''success'') 1 (0, 0) (example_db conditional_step) ''wf1''
        Map.empty None = Some (Inl name_error, failed_db None, (0, 2))
   \<and> (\<exists>row wflow. select_workflow (example_db conditional_step) ''wf1'' = [wflow]
           \<and> runs (failed_db None) = runs (example_db conditional_step) @ [row]
           \<and> status row = ''failed''
           \<and> ((\<exists>cur. name_error = ValueError (''Step '' @ cur @ '' not found in workflow'')
                     \<and> step_map (steps wflow) cur = None)
               \<or> (\<exists>hist rs. run_steps (failed_db None) = hist @ [rs]
                     \<and> rs_run_id rs = run_id row \<and> rs_status rs = ''failed''
                     \<and> rs_error rs = Some (str_of_error name_error))))
   \<and> resume_run (example_ext ''success'') 1 (0, 2) pipeline_db ''u''
        (Some [''name'' \<mapsto> JStr ''Diana'']) = Some (Inl name_error, pipeline_failed_db, (0, 3))
   \<and> (\<exists>row. select_run pipeline_failed_db ''u'' = [row] \<and> status row = ''failed''
           \<and> runs pipeline_failed_db
               = map (\<lambda>x. if run_id x = ''u'' then row else x) (runs pipeline_db)
           \<and> ((\<exists>cur. name_error = ValueError (''Step '' @ cur @ '' not found in workflow'')
                     \<and> step_map (steps pipeline) cur = None)
               \<or> (\<exists>hist rs. run_steps pipeline_failed_db = hist @ [rs]
                     \<and> rs_run_id rs = ''u'' \<and> rs_status rs = ''failed''
                     \<and> rs_error rs = Some (str_of_error name_error))))"
proof -
  let ?E = "example_ext ''success''"
  let ?r = "(running_run ''cond'')\<lparr>status := ''unsaved''\<rparr>"
  have a: "current_step ?r = Some ''cond'' \<and> ''cond'' \<noteq> []
      \<and> step_map [conditional_step] ''cond'' = Some conditional_step
      \<and> execute_step ?E (0, 1) ?r conditional_step = (Inl name_error, (0, 1))
      \<and> select_run (running_db conditional_step) (run_id ?r) = [running_run ''cond'']
      \<and> uuid4 ?E (0, 1) = (''uu'', (0, 2))"
    by (simp add: example_defs)
  have loop: "execute_workflow_loop ?E (step_map [conditional_step]) 1 (0, 1)
      (running_db conditional_step) ?r
    = Some (Inl name_error,
            (running_db conditional_step)
              \<lparr>runs := [(running_run ''cond'')\<lparr>status := ''failed''\<rparr>],
               run_steps := [failed_record ''uu'']\<rparr>,
            (0, 2))"
    using executor_failure_recorded[where r = ?r and cur = "''cond''"
         and smap = "step_map [conditional_step]" and s = conditional_step
         and ext = ?E and w = "(0, 1)" and e = name_error and ?w1.0 = "(0, 1)"
         and db = "running_db conditional_step" and ?r0.0 = "running_run ''cond''"
         and new_id = "''uu''" and ?w2.0 = "(0, 2)" and fuel = 0] a
    by (simp add: example_defs)
  have start: "start_run ?E 1 (0, 0) (example_db conditional_step) ''wf1''
        Map.empty None = Some (Inl name_error, failed_db None, (0, 2))"
    by (simp add: example_defs)
  have ch1: "runs (failed_db None) \<noteq> runs (example_db conditional_step)"
    by (simp add: failed_db_def example_db_def)
  have resume: "resume_run ?E 1 (0, 2) pipeline_db ''u''
        (Some [''name'' \<mapsto> JStr ''Diana'']) = Some (Inl name_error, pipeline_failed_db, (0, 3))"
    by (simp add: example_defs eval_nat_numeral)
  have ch2: "pipeline_failed_db \<noteq> pipeline_db"
    by (simp add: pipeline_failed_db_def pipeline_db_def started_run_def)
  have sel: "select_run pipeline_db ''u'' = [started_run ''form'' form_runtime None]
      \<and> select_workflow pipeline_db (workflow_id (started_run ''form'' form_runtime None))
          = [pipeline]"
    by (simp add: pipeline_db_def select_run_def select_workflow_def started_run_def
                  pipeline_def)
  from executor_failure_recorded[where ext = ?E and fuel = 1 and w = "(0, 0)"
         and db = "example_db conditional_step" and wid = "''wf1''" and inputs = Map.empty
         and key_opt = None and e = name_error and db' = "failed_db None" and w' = "(0, 2)"]
    start ch1
  have b1: "\<exists>row wflow. select_workflow (example_db conditional_step) ''wf1'' = [wflow]
           \<and> runs (failed_db None) = runs (example_db conditional_step) @ [row]
           \<and> status row = ''failed''
           \<and> ((\<exists>cur. name_error = ValueError (''Step '' @ cur @ '' not found in workflow'')
                     \<and> step_map (steps wflow) cur = None)
               \<or> (\<exists>hist rs. run_steps (failed_db None) = hist @ [rs]
                     \<and> rs_run_id rs = run_id row \<and> rs_status rs = ''failed''
                     \<and> rs_error rs = Some (str_of_error name_error)))"
    by blast
  from executor_failure_recorded[where ext = ?E and fuel = 1 and w = "(0, 2)"
         and db = pipeline_db and rid = "''u''"
         and inputs_opt = "Some [''name'' \<mapsto> JStr ''Diana'']"
         and e = name_error and db' = pipeline_failed_db and w' = "(0, 3)"
         and r = "started_run ''form'' form_runtime None" and wflow = pipeline]
    resume ch2 sel
  have b2: "\<exists>row. select_run pipeline_failed_db ''u'' = [row] \<and> status row = ''failed''
           \<and> runs pipeline_failed_db
               = map (\<lambda>x. if run_id x = ''u'' then row else x) (runs pipeline_db)
           \<and> ((\<exists>cur. name_error = ValueError (''Step '' @ cur @ '' not found in workflow'')
                     \<and> step_map (steps pipeline) cur = None)
               \<or> (\<exists>hist rs. run_steps pipeline_failed_db = hist @ [rs]
                     \<and> rs_run_id rs = ''u'' \<and> rs_status rs = ''failed''
                     \<and> rs_error rs = Some (str_of_error name_error)))"
    by blast
  from loop start b1 resume b2 show ?thesis by (intro conjI)
qed

theorem start_run_idempotent_witness:
  "start_run (example_ext ''success'') 1 (0, 0) (example_db form_step) ''wf1''
      [''initial'' \<mapsto> JStr ''data''] (Some ''k'')
    = Some (Inr (started_run ''form'' form_runtime (Some ''k'')),
            started_db form_step (started_run ''form'' form_runtime (Some ''k'')) form_pause,
            (0, 2))
   \<and> start_run (example_ext ''success'') 1 (0, 2)
        (started_db form_step (started_run ''form'' form_runtime (Some ''k'')) form_pause)
        ''wf1'' [''different'' \<mapsto> JStr ''data''] (Some ''k'')
    = Some (Inr (started_run ''form'' form_runtime (Some ''k'')),
            started_db form_step (started_run ''form'' form_runtime (Some ''k'')) form_pause,
            (0, 2))
   \<and> start_run (example_ext ''success'') 1 (0, 0) (example_db conditional_step) ''wf1''
        Map.empty (Some ''k'') = Some (Inl name_error, failed_db (Some ''k''), (0, 2))
   \<and> (\<exists>row. runs (failed_db (Some ''k'')) = runs (example_db conditional_step) @ [row]
         \<and> status row = ''failed''
         \<and> start_run (example_ext ''success'') 1 (0, 2) (failed_db (Some ''k'')) ''wf1''
              [''different'' \<mapsto> JStr ''data''] (Some ''k'')
            = Some (Inr row, failed_db (Some ''k''), (0, 2)))"
proof -
  let ?E = "example_ext ''success''"
  have k: "''k'' \<noteq> []" by simp
  have first: "start_run ?E 1 (0, 0) (example_db form_step) ''wf1''
      [''initial'' \<mapsto> JStr ''data''] (Some ''k'')
    = Some (Inr (started_run ''form'' form_runtime (Some ''k'')),
            started_db form_step (started_run ''form'' form_runtime (Some ''k'')) form_pause,
            (0, 2))"
    by (simp add: example_defs)
  have failing: "start_run ?E 1 (0, 0) (example_db conditional_step) ''wf1''
        Map.empty (Some ''k'') = Some (Inl name_error, failed_db (Some ''k''), (0, 2))"
    by (simp add: example_defs)
  have ch: "runs (failed_db (Some ''k'')) \<noteq> runs (example_db conditional_step)"
    by (simp add: failed_db_def example_db_def)
  from start_run_idempotent[where ext = ?E and k = "''k''" and fuel = 1 and w = "(0, 0)"
         and db = "example_db form_step" and wid = "''wf1''"
         and inputs = "[''initial'' \<mapsto> JStr ''data'']"
         and ?r1.0 = "started_run ''form'' form_runtime (Some ''k'')"
         and ?db1.0 = "started_db form_step (started_run ''form'' form_runtime (Some ''k''))
                         form_pause"
         and ?w1.0 = "(0, 2)" and fuel' = 1 and w' = "(0, 2)"
         and inputs' = "[''different'' \<mapsto> JStr ''data'']"] k first
  have second: "start_run ?E 1 (0, 2)
        (started_db form_step (started_run ''form'' form_runtime (Some ''k'')) form_pause)
        ''wf1'' [''different'' \<mapsto> JStr ''data''] (Some ''k'')
    = Some (Inr (started_run ''form'' form_runtime (Some ''k'')),
            started_db form_step (started_run ''form'' form_runtime (Some ''k'')) form_pause,
            (0, 2))"
    by blast
  from start_run_idempotent[where ext = ?E and k = "''k''" and fuel = 1 and w = "(0, 0)"
         and db = "example_db conditional_step" and wid = "''wf1''"
         and inputs = Map.empty and e = name_error and ?db1.0 = "failed_db (Some ''k'')"
         and ?w1.0 = "(0, 2)" and fuel' = 1 and w' = "(0, 2)"
         and inputs' = "[''different'' \<mapsto> JStr ''data'']"] k failing ch
  have again: "\<exists>row. runs (failed_db (Some ''k'')) = runs (example_db conditional_step) @ [row]
         \<and> status row = ''failed''
         \<and> start_run ?E 1 (0, 2) (failed_db (Some ''k'')) ''wf1''
              [''different'' \<mapsto> JStr ''data''] (Some ''k'')
            = Some (Inr row, failed_db (Some ''k''), (0, 2))"
    by blast
  from first second failing again show ?thesis by (intro conjI)
qed

text \<open>
  C2 as stated fails at the empty key: the first StartRun with key \<open>""\<close> skips the
  lookup and stores the key with its run; the second StartRun with the same workflow id and
  key skips the lookup again and its insert violates the unique constraint on the key, so it
  raises instead of returning the first run.
\<close>

theorem empty_key_second_call_counterexample:
  "start_run (example_ext ''success'') 1 (0, 0) (example_db form_step) ''wf1''
      [''initial'' \<mapsto> JStr ''data''] (Some [])
    = Some (Inr (started_run ''form'' form_runtime (Some [])),
            started_db form_step (started_run ''form'' form_runtime (Some [])) form_pause,
            (0, 2))
   \<and> start_run (example_ext ''success'') 1 (0, 2)
        (started_db form_step (started_run ''form'' form_runtime (Some [])) form_pause)
        ''wf1'' [''initial'' \<mapsto> JStr ''data''] (Some [])
    = Some (Inl (IntegrityError ''UNIQUE constraint failed: runs.idempotency_key''),
            started_db form_step (started_run ''form'' form_runtime (Some [])) form_pause,
            (0, 3))"
  by (simp add: example_defs)

text \<open>
  C9 as stated fails at the empty key: a run created with key \<open>""\<close> exists, and a
  StartRun with that key naming a workflow that does not exist raises the not-found error.
\<close>

theorem empty_key_missing_workflow_counterexample:
  "map idempotency_key
       (runs (started_db form_step (started_run ''form'' form_runtime (Some [])) form_pause))
     = [Some []]
   \<and> start_run (example_ext ''success'') 1 (0, 2)
        (started_db form_step (started_run ''form'' form_runtime (Some [])) form_pause)
        ''ghost'' [''initial'' \<mapsto> JStr ''data''] (Some [])
    = Some (Inl (ValueError ''Workflow ghost not found''),
            started_db form_step (started_run ''form'' form_runtime (Some [])) form_pause,
            (0, 2))"
  by (simp add: example_defs)

theorem ai_generate_retry_policy_witness:
  "ai_generate_execute (example_ext ''schema_violation'') ai_config example_context ''ai'' (0, 0)
     = (Inr ([''pause'' \<mapsto> JBool True, ''waiting_for'' \<mapsto> JStr ''manual_fix'',
              ''error'' \<mapsto> JStr (''Schema validation failed: '' @ quoted ''x''
                                      @ '' is a required property''),
              ''retry_count'' \<mapsto> JInt 3], example_context), (3, 0))
   \<and> ai_generate_execute (example_ext ''success'') ai_config example_context ''ai'' (0, 0)
     = (Inr ([''pause'' \<mapsto> JBool False, ''output'' \<mapsto> JObj [''x'' \<mapsto> JStr ''mock_value_1''],
              ''retry_count'' \<mapsto> JInt 0],
             example_context(''runtime'' \<mapsto>
               [''name'' \<mapsto> JStr ''Diana'',
                ''ai_output'' \<mapsto> JObj [''x'' \<mapsto> JStr ''mock_value_1'']])), (1, 0))
   \<and> execute_workflow_loop (example_ext ''schema_violation'') (step_map [ai_step]) 1 (7, 1)
        (running_db ai_step) (running_run ''ai'')
     = Some (Inr ((running_run ''ai'')\<lparr>status := ''waiting''\<rparr>),
             commit (running_db ai_step) ((running_run ''ai'')\<lparr>status := ''waiting''\<rparr>)
               [completed_step ''uu'' (running_run ''ai'') ai_step
                  (manual_fix (''Schema validation failed: '' @ quoted ''x''
                               @ '' is a required property'') 3)],
             (3, 2))"
proof -
  let ?V = "example_ext ''schema_violation''"
  let ?S = "example_ext ''success''"
  let ?m = "''Schema validation failed: '' @ quoted ''x'' @ '' is a required property''"
  let ?vars = "[''name'' \<mapsto> JStr ''Diana'']"
  let ?o = "JObj [''x'' \<mapsto> JStr ''mock_value_1'']"
  let ?c = "example_context(''runtime'' \<mapsto> [''name'' \<mapsto> JStr ''Diana'', ''ai_output'' \<mapsto> ?o])"
  have ev: "extract_variables ai_config example_context = Inr ?vars"
    by (simp add: example_defs)
  have rv: "extract_variables ai_config (run_context (running_run ''ai'')) = Inr ?vars"
    by (simp add: example_defs)
  have a: "attempt ?V ai_config ?vars example_context ''ai'' (n, i) = (Inl ?m, (Suc n, i))" for n i
    by (simp add: example_defs)
  have b: "attempt ?S ai_config ?vars example_context ''ai'' (0, 0) = (Inr (?o, ?c), (1, 0))"
    by (simp add: example_defs)
  have exhausted: "ai_generate_execute ?V ai_config example_context ''ai'' (0, 0)
     = (Inr ([''pause'' \<mapsto> JBool True, ''waiting_for'' \<mapsto> JStr ''manual_fix'',
              ''error'' \<mapsto> JStr ?m, ''retry_count'' \<mapsto> JInt 3], example_context), (3, 0))"
    using ai_generate_retry_policy[where ext = ?V and cfg = ai_config and ctx = example_context
        and vars = ?vars and sid = "''ai''" and ?w0.0 = "(0, 0)" and ?w1.0 = "(1, 0)"
        and ?w2.0 = "(2, 0)" and ?w3.0 = "(3, 0)" and ?e1.0 = ?m and ?e2.0 = ?m and ?e3.0 = ?m]
      ev a[of 0 0] a[of 1 0] a[of 2 0]
    by (simp add: eval_nat_numeral)
  have success: "ai_generate_execute ?S ai_config example_context ''ai'' (0, 0)
     = (Inr ([''pause'' \<mapsto> JBool False, ''output'' \<mapsto> ?o, ''retry_count'' \<mapsto> JInt 0], ?c), (1, 0))"
    using ai_generate_retry_policy[where ext = ?S and cfg = ai_config and ctx = example_context
        and vars = ?vars and sid = "''ai''" and ?w0.0 = "(0, 0)" and ?w1.0 = "(1, 0)"
        and out = ?o and ctx' = ?c] ev b
    by simp
  have h: "current_step (running_run ''ai'') = Some ''ai'' \<and> ''ai'' \<noteq> []
      \<and> step_map [ai_step] ''ai'' = Some ai_step
      \<and> stype ai_step = ''ai_generate'' \<and> cfg_ai_generate (config ai_step) = Some ai_config
      \<and> new_provider ?V (7, 1) = (0, 1) \<and> step_id ai_step = ''ai''
      \<and> run_context (running_run ''ai'') = example_context
      \<and> uuid4 ?V (3, 1) = (''uu'', (3, 2))"
    by (simp add: running_run_def step_map_def ai_step_def no_config_def example_ext_def)
  have engine: "execute_workflow_loop ?V (step_map [ai_step]) 1 (7, 1)
        (running_db ai_step) (running_run ''ai'')
     = Some (Inr ((running_run ''ai'')\<lparr>status := ''waiting''\<rparr>),
             commit (running_db ai_step) ((running_run ''ai'')\<lparr>status := ''waiting''\<rparr>)
               [completed_step ''uu'' (running_run ''ai'') ai_step (manual_fix ?m 3)],
             (3, 2))"
    using ai_generate_retry_policy[where ext = ?V and cfg = ai_config
        and vars = ?vars and r = "running_run ''ai''" and cur = "''ai''"
        and smap = "step_map [ai_step]" and s = ai_step and w = "(7, 1)"
        and ?w1.0 = "(1, 1)" and ?w2.0 = "(2, 1)" and ?w3.0 = "(3, 1)" and ?w4.0 = "(3, 2)"
        and ?e1.0 = ?m and ?e2.0 = ?m and ?e3.0 = ?m and new_id = "''uu''" and fuel = 0
        and db = "running_db ai_step"]
      h rv a[of 0 1] a[of 1 1] a[of 2 1]
    by (simp add: eval_nat_numeral)
  from exhausted success engine show ?thesis by (intro conjI)
qed

section \<open>Resuming an approval step\<close>













end
